theory Spec2Isabelle
  imports Complex_Main
begin

section \<open>Numbers and time values\<close>

text \<open>
  The script is JavaScript. Its numbers are modelled as \<open>real\<close> (minutes, angles) and
  \<open>int\<close> (milliseconds, whole minutes, years): sums, products, quotients, sine, cosine,
  tangent and arc cosine are exact, there is no rounding of a result and there are no
  infinities; a decimal constant of the script is the decimal written.

  The constant \<open>Math.PI\<close> is the number the language defines, the double nearest to
  \<open>pi\<close>, which is a little less than \<open>pi\<close>. So the angle the script forms for
  latitude 90 is a little less than a right angle, its cosine is not 0, and the quotient
  the script forms there is a quotient of two numbers, as it is when the script runs.

  A \<open>Date\<close> object is its time value, the number of milliseconds since
  1970-01-01T00:00:00Z; the check that turns a time value beyond 8.64e15 ms into an
  invalid date is left out, so every \<open>Date\<close> here is a valid one. The one place where
  the script can produce a not-a-number, \<open>parseInt\<close>, returns an \<open>option\<close>.

  The day and time arithmetic below follows the ECMAScript definition of the \<open>Date\<close>
  methods the script calls; \<open>div\<close> and \<open>mod\<close> on \<open>int\<close> round down, as the
  standard's \<open>floor\<close> and \<open>modulo\<close> do.
\<close>

definition msPerSecond :: int where
  "msPerSecond = 1000"

definition msPerMinute :: int where
  "msPerMinute = 60000"

definition msPerHour :: int where
  "msPerHour = 3600000"

definition msPerDay :: int where
  "msPerDay = 86400000"

definition Day :: "int \<Rightarrow> int" where
  "Day t = t div msPerDay"

definition HourFromTime :: "int \<Rightarrow> int" where
  "HourFromTime t = (t div msPerHour) mod 24"

definition MinFromTime :: "int \<Rightarrow> int" where
  "MinFromTime t = (t div msPerMinute) mod 60"

definition SecFromTime :: "int \<Rightarrow> int" where
  "SecFromTime t = (t div msPerSecond) mod 60"

definition msFromTime :: "int \<Rightarrow> int" where
  "msFromTime t = t mod msPerSecond"

definition MakeTime :: "int \<Rightarrow> int \<Rightarrow> int \<Rightarrow> int \<Rightarrow> int" where
  "MakeTime hour mn sec ms = hour * msPerHour + mn * msPerMinute + sec * msPerSecond + ms"

definition MakeDate :: "int \<Rightarrow> int \<Rightarrow> int" where
  "MakeDate day time = day * msPerDay + time"

definition DayFromYear :: "int \<Rightarrow> int" where
  "DayFromYear y =
     365 * (y - 1970) + (y - 1969) div 4 - (y - 1901) div 100 + (y - 1601) div 400"

text \<open>
  \<open>YearFromTime t\<close> is the largest year whose first day is not after \<open>t\<close>. It is found
  by counting up from a year that is certainly not too late.
\<close>

function yearFrom :: "int \<Rightarrow> int \<Rightarrow> int" where
  "yearFrom d y = (if DayFromYear (y + 1) \<le> d then yearFrom d (y + 1) else y)"
  by pat_completeness auto
termination
proof (relation "measure (\<lambda>(d, y). nat (d + 1 - DayFromYear (y + 1)))")
  show "wf (measure (\<lambda>(d, y). nat (d + 1 - DayFromYear (y + 1))))"
    by simp
next
  fix d y :: int
  assume le: "DayFromYear (y + 1) \<le> d"
  have a: "(y + 1 - 1969) div 4 \<le> (y + 2 - 1969) div 4"
    by (intro zdiv_mono1) auto
  have "(y + 2 - 1901) div 100 \<le> (y + 1 - 1901 + 100) div 100"
    by (intro zdiv_mono1) auto
  also have "\<dots> = (y + 1 - 1901) div 100 + 1"
    by simp
  finally have b: "(y + 2 - 1901) div 100 \<le> (y + 1 - 1901) div 100 + 1" .
  have c: "(y + 1 - 1601) div 400 \<le> (y + 2 - 1601) div 400"
    by (intro zdiv_mono1) auto
  have "365 * (y + 1 - 1970) + (y + 1 - 1969) div 4 - (y + 1 - 1901) div 100
          + (y + 1 - 1601) div 400
        < 365 * (y + 2 - 1970) + (y + 2 - 1969) div 4 - (y + 2 - 1901) div 100
          + (y + 2 - 1601) div 400"
    using a b c by simp
  then have "DayFromYear (y + 1) < DayFromYear (y + 1 + 1)"
    by (simp add: DayFromYear_def)
  with le show "((d, y + 1), (d, y)) \<in> measure (\<lambda>(d, y). nat (d + 1 - DayFromYear (y + 1)))"
    by simp
qed

declare yearFrom.simps [simp del]

definition YearFromTime :: "int \<Rightarrow> int" where
  "YearFromTime t =
     (let d = Day t
      in yearFrom d (if 0 \<le> d then 1970 + d div 366 else 1970 + d div 365))"

definition DayWithinYear :: "int \<Rightarrow> int" where
  "DayWithinYear t = Day t - DayFromYear (YearFromTime t)"

text \<open>
  \<open>MakeDay (year, month, date)\<close> of the standard, for \<open>month = 0\<close>, the only month the
  script passes: the day number of January 1 of \<open>year\<close>, plus \<open>date - 1\<close>.
\<close>

definition MakeDay_month0 :: "int \<Rightarrow> int \<Rightarrow> int" where
  "MakeDay_month0 year dt = DayFromYear year + dt - 1"

subsection \<open>The host's time zone\<close>

text \<open>
  The \<open>Date\<close> methods that read or write hours and minutes work in the local time of the
  host the script runs on. The host's rules are a parameter: \<open>tza_utc z t\<close> is the offset
  (in milliseconds) of local time from UTC at the instant \<open>t\<close>, and \<open>tza_local z t\<close> the
  offset the host uses to read the local time \<open>t\<close> back as an instant (at a local time
  that a transition skips or repeats, the offset before the transition).
\<close>

record zone =
  tza_utc :: "int \<Rightarrow> int"
  tza_local :: "int \<Rightarrow> int"

definition LocalTime :: "zone \<Rightarrow> int \<Rightarrow> int" where
  "LocalTime z t = t + tza_utc z t"

definition UTC :: "zone \<Rightarrow> int \<Rightarrow> int" where
  "UTC z t = t - tza_local z t"

definition fixed_zone :: "int \<Rightarrow> zone" where
  "fixed_zone c = \<lparr>tza_utc = (\<lambda>t. c), tza_local = (\<lambda>t. c)\<rparr>"

text \<open>
  Europe/Tallinn in 2024: UTC+2, and UTC+3 from 2024-03-31T01:00Z (local 03:00 becomes
  04:00) until 2024-10-27T01:00Z (local 04:00 becomes 03:00).
\<close>

definition tallinn2024 :: zone where
  "tallinn2024 =
     \<lparr>tza_utc = (\<lambda>t. if 1711846800000 \<le> t \<and> t < 1729990800000 then 10800000 else 7200000),
      tza_local = (\<lambda>t. if 1711846800000 + 10800000 \<le> t \<and> t < 1729990800000 + 10800000
                         then 10800000 else 7200000)\<rparr>"

subsection \<open>The Date methods the script calls\<close>

definition getFullYear :: "zone \<Rightarrow> int \<Rightarrow> int" where
  "getFullYear z t = YearFromTime (LocalTime z t)"

definition getMinutes :: "zone \<Rightarrow> int \<Rightarrow> int" where
  "getMinutes z t = MinFromTime (LocalTime z t)"



definition setHours :: "zone \<Rightarrow> int \<Rightarrow> int \<Rightarrow> int \<Rightarrow> int \<Rightarrow> int \<Rightarrow> int" where
  "setHours z t hour mn sec ms =
     UTC z (MakeDate (Day (LocalTime z t)) (MakeTime hour mn sec ms))"

definition setMinutes :: "zone \<Rightarrow> int \<Rightarrow> int \<Rightarrow> int" where
  "setMinutes z t mn =
     (let tl = LocalTime z t
      in UTC z (MakeDate (Day tl) (MakeTime (HourFromTime tl) mn (SecFromTime tl) (msFromTime tl))))"

text \<open>
  \<open>new Date(year, 0, 0)\<close>: local midnight of the day before January 1. The constructor
  reads a year from 0 to 99 as 1900 + year.
\<close>

definition newDate_year_0_0 :: "zone \<Rightarrow> int \<Rightarrow> int" where
  "newDate_year_0_0 z year =
     (let yr = (if 0 \<le> year \<and> year \<le> 99 then 1900 + year else year)
      in UTC z (MakeDate (MakeDay_month0 yr 0) (MakeTime 0 0 0 0)))"

text \<open>The remainder operator \<open>%\<close>: the quotient is truncated, the sign is the dividend's.\<close>

definition trunc :: "real \<Rightarrow> int" where
  "trunc x = (if x < 0 then \<lceil>x\<rceil> else \<lfloor>x\<rfloor>)"

definition js_rem :: "real \<Rightarrow> real \<Rightarrow> real" where
  "js_rem n d = n - d * of_int (trunc (n / d))"

section \<open>The script\<close>

subsection \<open>minutesToDate\<close>

definition minutesToDate :: "zone \<Rightarrow> int \<Rightarrow> real \<Rightarrow> int" where
  "minutesToDate z baseDate minutes =
     (let date = baseDate;
          hours = \<lfloor>minutes / 60\<rfloor>;
          mins = \<lfloor>js_rem minutes 60\<rfloor>
      in setHours z date hours mins 0 0)"

subsection \<open>calculateVedicTimes\<close>

text \<open>
  The three constants the periods are computed from are global in the script; they are
  the fields of a record here, with the script's values in \<open>script_config\<close>.
\<close>

record config =
  BRAHMA_MUHURTA_MINUTES_BEFORE_SUNRISE :: int
  BRAHMA_MUHURTA_DURATION_MINUTES :: int
  SANDHYA_DURATION_MINUTES :: int

definition script_config :: config where
  "script_config =
     \<lparr>BRAHMA_MUHURTA_MINUTES_BEFORE_SUNRISE = 96,
      BRAHMA_MUHURTA_DURATION_MINUTES = 48,
      SANDHYA_DURATION_MINUTES = 24\<rparr>"

text \<open>The object \<open>getSunTimesAsDate\<close> returns: fields \<open>sunrise\<close>, \<open>noon\<close>, \<open>sunset\<close>.\<close>

record sunDates =
  sunriseD :: int
  noonD :: int
  sunsetD :: int

text \<open>One period of the result: fields \<open>start\<close>, \<open>end\<close>, \<open>type\<close>, \<open>description\<close>.\<close>

record period =
  p_start :: int
  p_end :: int
  p_type :: string
  p_description :: string

record vedicTimes =
  brahmaMuhurta :: period
  morningSandhya :: period
  noonSandhya :: period
  eveningSandhya :: period

text \<open>
  \<open>formatTime\<close> hands a date to the platform's formatter for the pattern \<open>HH:mm\<close>; the
  formatter is the parameter \<open>fmt\<close>. Its guard \<open>!date\<close> is false for every \<open>Date\<close>.
\<close>

definition formatTime :: "(int \<Rightarrow> string) \<Rightarrow> int \<Rightarrow> string" where
  "formatTime fmt date = fmt date"

text \<open>
  The script's idiom \<open>d = new Date(x); d.setMinutes(d.getMinutes() + k)\<close>.
\<close>

definition shiftMinutes :: "zone \<Rightarrow> int \<Rightarrow> int \<Rightarrow> int" where
  "shiftMinutes z x k = (let d = x in setMinutes z d (getMinutes z d + k))"

definition calculateVedicTimes :: "zone \<Rightarrow> (int \<Rightarrow> string) \<Rightarrow> config \<Rightarrow> sunDates \<Rightarrow> vedicTimes" where
  "calculateVedicTimes z fmt cfg sunTimes =
     (let brahmaMuhurtaStart =
            shiftMinutes z (sunriseD sunTimes) (- BRAHMA_MUHURTA_MINUTES_BEFORE_SUNRISE cfg);
          brahmaMuhurtaEnd =
            shiftMinutes z brahmaMuhurtaStart (BRAHMA_MUHURTA_DURATION_MINUTES cfg);
          morningSandhyaStart = shiftMinutes z (sunriseD sunTimes) (- SANDHYA_DURATION_MINUTES cfg);
          morningSandhyaEnd = shiftMinutes z (sunriseD sunTimes) (SANDHYA_DURATION_MINUTES cfg);
          noonSandhyaStart = shiftMinutes z (noonD sunTimes) (- SANDHYA_DURATION_MINUTES cfg);
          noonSandhyaEnd = shiftMinutes z noonSandhyaStart (SANDHYA_DURATION_MINUTES cfg * 2);
          eveningSandhyaStart = shiftMinutes z (sunsetD sunTimes) (- SANDHYA_DURATION_MINUTES cfg);
          eveningSandhyaEnd = shiftMinutes z (sunsetD sunTimes) (SANDHYA_DURATION_MINUTES cfg)
      in \<lparr>brahmaMuhurta =
            \<lparr>p_start = brahmaMuhurtaStart, p_end = brahmaMuhurtaEnd,
             p_type = ''Brahma-muhurta'',
             p_description =
               ''Brahma-muhurta (time for spiritual practice before dawn): ''
               @ formatTime fmt brahmaMuhurtaStart @ '' - '' @ formatTime fmt brahmaMuhurtaEnd
               @ [CHR 0x0A] @ ''Sunrise time: '' @ formatTime fmt (sunriseD sunTimes)\<rparr>,
          morningSandhya =
            \<lparr>p_start = morningSandhyaStart, p_end = morningSandhyaEnd,
             p_type = ''Morning Sandhya'',
             p_description =
               ''Morning Sandhya (time for reciting Gayatri mantra at sunrise): ''
               @ formatTime fmt morningSandhyaStart @ '' - '' @ formatTime fmt morningSandhyaEnd
               @ [CHR 0x0A] @ ''Exact sunrise time: '' @ formatTime fmt (sunriseD sunTimes)\<rparr>,
          noonSandhya =
            \<lparr>p_start = noonSandhyaStart, p_end = noonSandhyaEnd,
             p_type = ''Midday Sandhya'',
             p_description =
               ''Midday Sandhya (time for reciting Gayatri mantra at noon): ''
               @ formatTime fmt noonSandhyaStart @ '' - '' @ formatTime fmt noonSandhyaEnd
               @ [CHR 0x0A] @ ''Exact solar noon time: '' @ formatTime fmt (noonD sunTimes)\<rparr>,
          eveningSandhya =
            \<lparr>p_start = eveningSandhyaStart, p_end = eveningSandhyaEnd,
             p_type = ''Evening Sandhya'',
             p_description =
               ''Evening Sandhya (time for reciting Gayatri mantra at sunset): ''
               @ formatTime fmt eveningSandhyaStart @ '' - '' @ formatTime fmt eveningSandhyaEnd
               @ [CHR 0x0A] @ ''Exact sunset time: '' @ formatTime fmt (sunsetD sunTimes)\<rparr>\<rparr>)"

subsection \<open>getSunTimes\<close>

text \<open>
  \<open>Utilities.formatDate(date, timezone, "Z")\<close> is the platform's; its result, the string
  \<open>tzString\<close>, is an argument of the model. The platform writes the offset of the zone
  as a sign, two digits of hours and two digits of minutes; \<open>formatZ\<close> is that format,
  from the offset in minutes (below 100 hours).
\<close>

definition digit_char :: "int \<Rightarrow> char" where
  "digit_char n = ''0123456789'' ! nat n"

definition formatZ :: "int \<Rightarrow> string" where
  "formatZ off =
     (let a = \<bar>off\<bar>; h = a div 60; m = a mod 60
      in [if off < 0 then CHR ''-'' else CHR ''+'',
          digit_char (h div 10), digit_char (h mod 10),
          digit_char (m div 10), digit_char (m mod 10)])"

text \<open>
  \<open>parseInt\<close> in base ten: an optional sign, then the digits up to the first character
  that is not one; without a digit the result is not a number (\<open>None\<close>). Leading white
  space and the prefix \<open>0x\<close>, which an offset string does not have, are not modelled.
\<close>

definition is_digit :: "char \<Rightarrow> bool" where
  "is_digit c = (48 \<le> (of_char c :: int) \<and> (of_char c :: int) \<le> 57)"

fun digits_value :: "int \<Rightarrow> string \<Rightarrow> int" where
  "digits_value acc [] = acc"
| "digits_value acc (c # cs) = digits_value (acc * 10 + (of_char c - 48)) cs"

definition parseDigits :: "string \<Rightarrow> int option" where
  "parseDigits s =
     (let ds = takeWhile is_digit s
      in if ds = [] then None else Some (digits_value 0 ds))"

fun parseInt :: "string \<Rightarrow> int option" where
  "parseInt [] = None"
| "parseInt (c # cs) =
     (if c = CHR ''-'' then map_option uminus (parseDigits cs)
      else if c = CHR ''+'' then parseDigits cs
      else parseDigits (c # cs))"

definition tzOffsetMinutes :: "string \<Rightarrow> int option" where
  "tzOffsetMinutes tzString =
     (case (parseInt (take 3 tzString), parseInt (drop 3 tzString)) of
        (Some a, Some b) \<Rightarrow> Some (a * 60 + b)
      | _ \<Rightarrow> None)"

text \<open>The object \<open>getSunTimes\<close> returns: minutes from the start of the day.\<close>

record sunTimes =
  sunrise :: real
  solarNoon :: real
  sunset :: real

text \<open>
  \<open>Math.PI\<close>: the double \<open>0x400921FB54442D18\<close>, which is
  3.141592653589793115997963..., about 1.22e-16 less than \<open>pi\<close>.
\<close>

definition Math_PI :: real where
  "Math_PI = 884279719003555 / 281474976710656"

definition rad :: real where
  "rad = Math_PI / 180"

definition dayOfYear :: "zone \<Rightarrow> int \<Rightarrow> int" where
  "dayOfYear z date =
     (let startOfYear = newDate_year_0_0 z (getFullYear z date);
          diff = date - startOfYear;
          oneDay = 1000 * 60 * 60 * 24
      in \<lfloor>real_of_int diff / real_of_int oneDay\<rfloor>)"

definition gamma :: "int \<Rightarrow> real" where
  "gamma d = 2 * Math_PI / 365 * (of_int d - 1)"

definition eqTime :: "real \<Rightarrow> real" where
  "eqTime g =
     229.18 * (0.000075 + 0.001868 * cos g - 0.032077 * sin g
               - 0.014615 * cos (2 * g) - 0.040849 * sin (2 * g))"

definition decl :: "real \<Rightarrow> real" where
  "decl g =
     0.006918 - 0.399912 * cos g + 0.070257 * sin g
     - 0.006758 * cos (2 * g) + 0.000907 * sin (2 * g)
     - 0.002697 * cos (3 * g) + 0.00148 * sin (3 * g)"

text \<open>
  The cosine of the hour angle, before and after the two tests that limit it. For a
  latitude from -90 to 90 the angle \<open>lat * rad\<close> lies strictly inside the right angle
  and the divisor is positive; at latitude 90 and -90 it is about 5.6e-17 and the quotient
  is of the order of 1e15.
\<close>

definition cosH :: "real \<Rightarrow> real \<Rightarrow> real" where
  "cosH lat dc =
     cos (90.833 * rad) / (cos (lat * rad) * cos dc) - tan (lat * rad) * tan dc"

definition limitCosH :: "real \<Rightarrow> real" where
  "limitCosH c =
     (let c1 = (if c > 1 then 1 else c);
          c2 = (if c1 < - 1 then - 1 else c1)
      in c2)"

text \<open>
  The hour angle in minutes. The arc cosine is exact: at -1 it is \<open>pi\<close>, where the
  script's \<open>Math.acos\<close> gives \<open>Math.PI\<close>, so twelve hours are
  \<open>720 * pi / Math.PI\<close> minutes here, which is 720 to thirteen decimal places, and 720
  in the script.
\<close>

definition haMinutes :: "real \<Rightarrow> real" where
  "haMinutes c = (let ha = arccos c in (ha * 180 / Math_PI) * 4)"

text \<open>
  \<open>getSunTimes\<close> in two parts: the day of the year, above, and the sun times of a day of
  the year.
\<close>

definition sunTimesOf :: "int \<Rightarrow> real \<Rightarrow> real \<Rightarrow> int \<Rightarrow> sunTimes" where
  "sunTimesOf d lat lng tzOffset =
     (let g = gamma d;
          noon = 720 - (4 * lng) - eqTime g + of_int tzOffset;
          hm = haMinutes (limitCosH (cosH lat (decl g)))
      in \<lparr>sunrise = noon - hm, solarNoon = noon, sunset = noon + hm\<rparr>)"

definition getSunTimes :: "zone \<Rightarrow> int \<Rightarrow> real \<Rightarrow> real \<Rightarrow> string \<Rightarrow> sunTimes option" where
  "getSunTimes z date lat lng tzString =
     (let d = dayOfYear z date
      in case tzOffsetMinutes tzString of
           None \<Rightarrow> None
         | Some tzOffset \<Rightarrow> Some (sunTimesOf d lat lng tzOffset))"

subsection \<open>getSunTimesAsDate\<close>

definition getSunTimesAsDate :: "zone \<Rightarrow> int \<Rightarrow> real \<Rightarrow> real \<Rightarrow> string \<Rightarrow> sunDates option" where
  "getSunTimesAsDate z date lat lng tzString =
     (case getSunTimes z date lat lng tzString of
        None \<Rightarrow> None
      | Some tms \<Rightarrow>
          Some \<lparr>sunriseD = minutesToDate z date (sunrise tms),
                noonD = minutesToDate z date (solarNoon tms),
                sunsetD = minutesToDate z date (sunset tms)\<rparr>)"

section \<open>The script with its dates in a store\<close>

text \<open>
  A \<open>Date\<close> is an object that \<open>setHours\<close> and \<open>setMinutes\<close> change in place. In this
  second model the objects live in a store, a list of time values, and a date is its
  index there: \<open>new Date\<close> appends a cell and the two setters overwrite one. Each
  function takes the store and returns it with its result. The numbers computed are
  those of the first model.
\<close>

record sunRefs =
  sunriseR :: nat
  noonR :: nat
  sunsetR :: nat

record periodR =
  r_start :: nat
  r_end :: nat
  r_type :: string
  r_description :: string

record vedicRefs =
  brahmaMuhurtaR :: periodR
  morningSandhyaR :: periodR
  noonSandhyaR :: periodR
  eveningSandhyaR :: periodR

definition newDate_h :: "int list \<Rightarrow> int \<Rightarrow> int list \<times> nat" where
  "newDate_h h v = (h @ [v], length h)"

definition setHours_h :: "zone \<Rightarrow> int list \<Rightarrow> nat \<Rightarrow> int \<Rightarrow> int \<Rightarrow> int \<Rightarrow> int \<Rightarrow> int list" where
  "setHours_h z h d hour mn sec ms = h[d := setHours z (h ! d) hour mn sec ms]"

definition setMinutes_h :: "zone \<Rightarrow> int list \<Rightarrow> nat \<Rightarrow> int \<Rightarrow> int list" where
  "setMinutes_h z h d mn = h[d := setMinutes z (h ! d) mn]"

definition dayOfYear_h :: "zone \<Rightarrow> int list \<Rightarrow> nat \<Rightarrow> int list \<times> int" where
  "dayOfYear_h z h date =
     (let (h1, startOfYear) = newDate_h h (newDate_year_0_0 z (getFullYear z (h ! date)));
          diff = h1 ! date - h1 ! startOfYear;
          oneDay = 1000 * 60 * 60 * 24
      in (h1, \<lfloor>real_of_int diff / real_of_int oneDay\<rfloor>))"

definition getSunTimes_h ::
  "zone \<Rightarrow> int list \<Rightarrow> nat \<Rightarrow> real \<Rightarrow> real \<Rightarrow> string \<Rightarrow> int list \<times> sunTimes option" where
  "getSunTimes_h z h date lat lng tzString =
     (let (h1, d) = dayOfYear_h z h date
      in (h1, case tzOffsetMinutes tzString of
                None \<Rightarrow> None
              | Some tzOffset \<Rightarrow> Some (sunTimesOf d lat lng tzOffset)))"

definition minutesToDate_h :: "zone \<Rightarrow> int list \<Rightarrow> nat \<Rightarrow> real \<Rightarrow> int list \<times> nat" where
  "minutesToDate_h z h baseDate minutes =
     (let (h1, date) = newDate_h h (h ! baseDate);
          hours = \<lfloor>minutes / 60\<rfloor>;
          mins = \<lfloor>js_rem minutes 60\<rfloor>
      in (setHours_h z h1 date hours mins 0 0, date))"

definition getSunTimesAsDate_h ::
  "zone \<Rightarrow> int list \<Rightarrow> nat \<Rightarrow> real \<Rightarrow> real \<Rightarrow> string \<Rightarrow> int list \<times> sunRefs option" where
  "getSunTimesAsDate_h z h date lat lng tzString =
     (let (h1, r) = getSunTimes_h z h date lat lng tzString
      in case r of
           None \<Rightarrow> (h1, None)
         | Some tms \<Rightarrow>
             (let (h2, sunriseDate) = minutesToDate_h z h1 date (sunrise tms);
                  (h3, solarNoonDate) = minutesToDate_h z h2 date (solarNoon tms);
                  (h4, sunsetDate) = minutesToDate_h z h3 date (sunset tms)
              in (h4, Some \<lparr>sunriseR = sunriseDate, noonR = solarNoonDate,
                             sunsetR = sunsetDate\<rparr>)))"

definition shiftMinutes_h :: "zone \<Rightarrow> int list \<Rightarrow> nat \<Rightarrow> int \<Rightarrow> int list \<times> nat" where
  "shiftMinutes_h z h x k =
     (let (h1, d) = newDate_h h (h ! x)
      in (setMinutes_h z h1 d (getMinutes z (h1 ! d) + k), d))"

definition calculateVedicTimes_h ::
  "zone \<Rightarrow> (int \<Rightarrow> string) \<Rightarrow> config \<Rightarrow> int list \<Rightarrow> sunRefs \<Rightarrow> int list \<times> vedicRefs" where
  "calculateVedicTimes_h z fmt cfg h sunTimes =
     (let (h1, brahmaMuhurtaStart) =
            shiftMinutes_h z h (sunriseR sunTimes) (- BRAHMA_MUHURTA_MINUTES_BEFORE_SUNRISE cfg);
          (h2, brahmaMuhurtaEnd) =
            shiftMinutes_h z h1 brahmaMuhurtaStart (BRAHMA_MUHURTA_DURATION_MINUTES cfg);
          (h3, morningSandhyaStart) =
            shiftMinutes_h z h2 (sunriseR sunTimes) (- SANDHYA_DURATION_MINUTES cfg);
          (h4, morningSandhyaEnd) =
            shiftMinutes_h z h3 (sunriseR sunTimes) (SANDHYA_DURATION_MINUTES cfg);
          (h5, noonSandhyaStart) =
            shiftMinutes_h z h4 (noonR sunTimes) (- SANDHYA_DURATION_MINUTES cfg);
          (h6, noonSandhyaEnd) =
            shiftMinutes_h z h5 noonSandhyaStart (SANDHYA_DURATION_MINUTES cfg * 2);
          (h7, eveningSandhyaStart) =
            shiftMinutes_h z h6 (sunsetR sunTimes) (- SANDHYA_DURATION_MINUTES cfg);
          (h8, eveningSandhyaEnd) =
            shiftMinutes_h z h7 (sunsetR sunTimes) (SANDHYA_DURATION_MINUTES cfg)
      in (h8,
          \<lparr>brahmaMuhurtaR =
            \<lparr>r_start = brahmaMuhurtaStart, r_end = brahmaMuhurtaEnd,
             r_type = ''Brahma-muhurta'',
             r_description =
               ''Brahma-muhurta (time for spiritual practice before dawn): ''
               @ formatTime fmt (h8 ! brahmaMuhurtaStart) @ '' - ''
               @ formatTime fmt (h8 ! brahmaMuhurtaEnd)
               @ [CHR 0x0A] @ ''Sunrise time: '' @ formatTime fmt (h8 ! sunriseR sunTimes)\<rparr>,
          morningSandhyaR =
            \<lparr>r_start = morningSandhyaStart, r_end = morningSandhyaEnd,
             r_type = ''Morning Sandhya'',
             r_description =
               ''Morning Sandhya (time for reciting Gayatri mantra at sunrise): ''
               @ formatTime fmt (h8 ! morningSandhyaStart) @ '' - ''
               @ formatTime fmt (h8 ! morningSandhyaEnd)
               @ [CHR 0x0A] @ ''Exact sunrise time: ''
               @ formatTime fmt (h8 ! sunriseR sunTimes)\<rparr>,
          noonSandhyaR =
            \<lparr>r_start = noonSandhyaStart, r_end = noonSandhyaEnd,
             r_type = ''Midday Sandhya'',
             r_description =
               ''Midday Sandhya (time for reciting Gayatri mantra at noon): ''
               @ formatTime fmt (h8 ! noonSandhyaStart) @ '' - ''
               @ formatTime fmt (h8 ! noonSandhyaEnd)
               @ [CHR 0x0A] @ ''Exact solar noon time: ''
               @ formatTime fmt (h8 ! noonR sunTimes)\<rparr>,
          eveningSandhyaR =
            \<lparr>r_start = eveningSandhyaStart, r_end = eveningSandhyaEnd,
             r_type = ''Evening Sandhya'',
             r_description =
               ''Evening Sandhya (time for reciting Gayatri mantra at sunset): ''
               @ formatTime fmt (h8 ! eveningSandhyaStart) @ '' - ''
               @ formatTime fmt (h8 ! eveningSandhyaEnd)
               @ [CHR 0x0A] @ ''Exact sunset time: ''
               @ formatTime fmt (h8 ! sunsetR sunTimes)\<rparr>\<rparr>))"

text \<open>
  The two calls that \<open>createVedicEvents\<close> makes between choosing the date and writing to
  the calendar, in the first model and in the store.
\<close>

definition vedicTimesFor ::
  "zone \<Rightarrow> (int \<Rightarrow> string) \<Rightarrow> config \<Rightarrow> int \<Rightarrow> real \<Rightarrow> real \<Rightarrow> string \<Rightarrow> vedicTimes option" where
  "vedicTimesFor z fmt cfg date lat lng tzString =
     (case getSunTimesAsDate z date lat lng tzString of
        None \<Rightarrow> None
      | Some sunTimes \<Rightarrow> Some (calculateVedicTimes z fmt cfg sunTimes))"

definition vedicTimesFor_h ::
  "zone \<Rightarrow> (int \<Rightarrow> string) \<Rightarrow> config \<Rightarrow> int list \<Rightarrow> nat \<Rightarrow> real \<Rightarrow> real \<Rightarrow> string
     \<Rightarrow> int list \<times> vedicRefs option" where
  "vedicTimesFor_h z fmt cfg h date lat lng tzString =
     (let (h1, r) = getSunTimesAsDate_h z h date lat lng tzString
      in case r of
           None \<Rightarrow> (h1, None)
         | Some sunTimes \<Rightarrow>
             (let (h2, v) = calculateVedicTimes_h z fmt cfg h1 sunTimes in (h2, Some v)))"

text \<open>The periods a result in the store stands for: its dates read from the store.\<close>

definition periodOf :: "int list \<Rightarrow> periodR \<Rightarrow> period" where
  "periodOf h p =
     \<lparr>p_start = h ! r_start p, p_end = h ! r_end p, p_type = r_type p,
      p_description = r_description p\<rparr>"

definition vedicTimesOf :: "int list \<Rightarrow> vedicRefs \<Rightarrow> vedicTimes" where
  "vedicTimesOf h v =
     \<lparr>brahmaMuhurta = periodOf h (brahmaMuhurtaR v),
      morningSandhya = periodOf h (morningSandhyaR v),
      noonSandhya = periodOf h (noonSandhyaR v),
      eveningSandhya = periodOf h (eveningSandhyaR v)\<rparr>"

text \<open>Every date of a result is a cell below \<open>n\<close>.\<close>

definition refs_below :: "nat \<Rightarrow> vedicRefs \<Rightarrow> bool" where
  "refs_below n v =
     (r_start (brahmaMuhurtaR v) < n \<and> r_end (brahmaMuhurtaR v) < n
      \<and> r_start (morningSandhyaR v) < n \<and> r_end (morningSandhyaR v) < n
      \<and> r_start (noonSandhyaR v) < n \<and> r_end (noonSandhyaR v) < n
      \<and> r_start (eveningSandhyaR v) < n \<and> r_end (eveningSandhyaR v) < n)"

section \<open>Notions the properties are stated with\<close>

text \<open>
  At the instant \<open>t\<close> the host is \<open>c\<close> milliseconds ahead of UTC and reads the local
  time of \<open>t\<close> back with the same offset: \<open>t\<close> does not lie in an hour that a change
  of the clocks skips or repeats.
\<close>

definition regular_at :: "zone \<Rightarrow> int \<Rightarrow> int \<Rightarrow> bool" where
  "regular_at z c t = (tza_utc z t = c \<and> tza_local z (t + c) = c)"



text \<open>
  The instants that the rules for the four periods name: each anchor, and each start and
  end counted in minutes from its anchor.
\<close>

definition window_instants :: "config \<Rightarrow> sunDates \<Rightarrow> int list" where
  "window_instants cfg s =
     [sunriseD s,
      sunriseD s - BRAHMA_MUHURTA_MINUTES_BEFORE_SUNRISE cfg * msPerMinute,
      sunriseD s - BRAHMA_MUHURTA_MINUTES_BEFORE_SUNRISE cfg * msPerMinute
        + BRAHMA_MUHURTA_DURATION_MINUTES cfg * msPerMinute,
      sunriseD s - SANDHYA_DURATION_MINUTES cfg * msPerMinute,
      sunriseD s + SANDHYA_DURATION_MINUTES cfg * msPerMinute,
      noonD s,
      noonD s - SANDHYA_DURATION_MINUTES cfg * msPerMinute,
      noonD s + SANDHYA_DURATION_MINUTES cfg * msPerMinute,
      sunsetD s,
      sunsetD s - SANDHYA_DURATION_MINUTES cfg * msPerMinute,
      sunsetD s + SANDHYA_DURATION_MINUTES cfg * msPerMinute]"

text \<open>
  The platform's formatter for the pattern \<open>HH:mm\<close> in a zone, the argument \<open>fmt\<close> of
  \<open>calculateVedicTimes\<close> in the examples.
\<close>

definition formatHHmm :: "zone \<Rightarrow> int \<Rightarrow> string" where
  "formatHHmm z t =
     (let h = HourFromTime (LocalTime z t); m = MinFromTime (LocalTime z t)
      in [digit_char (h div 10), digit_char (h mod 10), CHR '':'',
          digit_char (m div 10), digit_char (m mod 10)])"

text \<open>
  What the specification asks of the conversion: local midnight of the base date plus the
  minutes, their fraction cut off toward zero, read as a local time of the host.
\<close>

definition minutesToDate_spec :: "zone \<Rightarrow> int \<Rightarrow> real \<Rightarrow> int" where
  "minutesToDate_spec z baseDate minutes =
     UTC z (MakeDate (Day (LocalTime z baseDate)) 0 + trunc minutes * msPerMinute)"

text \<open>
  The ordinal day of a date within its year, in the host's calendar: 1 on January 1.
\<close>

definition ordinalDay :: "zone \<Rightarrow> int \<Rightarrow> int" where
  "ordinalDay z t = DayWithinYear (LocalTime z t) + 1"

subsection \<open>Example data\<close>

text \<open>
  Three dates of 2024-06-21 in Tallinn: 04:03, 13:22 and 22:42 local time (UTC+3).
\<close>

definition solstice_dates :: sunDates where
  "solstice_dates =
     \<lparr>sunriseD = 1718931780000, noonD = 1718965320000, sunsetD = 1718998920000\<rparr>"

text \<open>
  2024-03-31T01:10Z, which is 04:10 local time in Tallinn, ten minutes after the clocks
  went from 03:00 to 04:00.
\<close>

definition gap_day_dates :: sunDates where
  "gap_day_dates =
     \<lparr>sunriseD = 1711847400000, noonD = 1711847400000, sunsetD = 1711847400000\<rparr>"

definition negative_config :: config where
  "negative_config =
     \<lparr>BRAHMA_MUHURTA_MINUTES_BEFORE_SUNRISE = 96,
      BRAHMA_MUHURTA_DURATION_MINUTES = 48,
      SANDHYA_DURATION_MINUTES = - 1\<rparr>"

text \<open>
  2024-06-21T00:00 local time in Tallinn, which is 2024-06-20T21:00Z, and 18:00 local
  time of the same day, which is 15:00Z.
\<close>

definition solstice_night :: int where
  "solstice_night = 1718917200000"



text \<open>
  Pacific/Honolulu, ten hours behind UTC all year, and 2024-01-01T12:00 local time
  there, which is 22:00Z.
\<close>

definition honolulu :: zone where
  "honolulu = fixed_zone (- 36000000)"

definition new_year_honolulu :: int where
  "new_year_honolulu = 1704146400000"

section \<open>Date arithmetic\<close>

lemmas date_defs = shiftMinutes_def setMinutes_def getMinutes_def setHours_def LocalTime_def
  UTC_def MakeDate_def MakeTime_def Day_def HourFromTime_def MinFromTime_def SecFromTime_def
  msFromTime_def msPerDay_def msPerHour_def msPerMinute_def msPerSecond_def Let_def

lemma time_split:
  "Day t * msPerDay + HourFromTime t * msPerHour + MinFromTime t * msPerMinute
     + SecFromTime t * msPerSecond + msFromTime t = t"
proof -
  have s: "t div 1000 * 1000 + t mod 1000 = t" by simp
  have m: "t div 60000 = (t div 1000) div 60" by (simp add: zdiv_zmult2_eq)
  have h: "t div 3600000 = (t div 60000) div 60" by (simp add: zdiv_zmult2_eq)
  have d: "t div 86400000 = (t div 3600000) div 24" by (simp add: zdiv_zmult2_eq)
  have s1: "(t div 1000) div 60 * 60 + (t div 1000) mod 60 = t div 1000" by simp
  have m1: "(t div 60000) div 60 * 60 + (t div 60000) mod 60 = t div 60000" by simp
  have h1: "(t div 3600000) div 24 * 24 + (t div 3600000) mod 24 = t div 3600000" by simp
  show ?thesis
    unfolding Day_def HourFromTime_def MinFromTime_def SecFromTime_def msFromTime_def
      msPerDay_def msPerHour_def msPerMinute_def msPerSecond_def
    using s m h d s1 m1 h1 by linarith
qed

lemma setMinutes_regular:
  assumes "tza_utc z t = c" "tza_local z (t + c + k * msPerMinute) = c"
  shows "setMinutes z t (getMinutes z t + k) = t + k * msPerMinute"
proof -
  let ?tl = "t + c"
  have "MakeDate (Day ?tl)
          (MakeTime (HourFromTime ?tl) (MinFromTime ?tl + k) (SecFromTime ?tl) (msFromTime ?tl))
        = ?tl + k * msPerMinute"
    using time_split [of ?tl] by (simp add: MakeDate_def MakeTime_def algebra_simps)
  then show ?thesis
    using assms by (simp add: setMinutes_def getMinutes_def LocalTime_def UTC_def Let_def)
qed

lemma shiftMinutes_regular:
  assumes "regular_at z c t" "regular_at z c (t + k * msPerMinute)"
  shows "shiftMinutes z t k = t + k * msPerMinute"
  using assms setMinutes_regular [of z t c k]
  by (simp add: shiftMinutes_def regular_at_def Let_def algebra_simps)

lemma js_rem_nonneg:
  assumes "0 \<le> m"
  shows "js_rem m 60 = m - 60 * of_int \<lfloor>m / 60\<rfloor>"
  using assms by (simp add: js_rem_def trunc_def)

lemma minutes_split_nonneg:
  assumes "0 \<le> m"
  shows "\<lfloor>m / 60\<rfloor> * 60 + \<lfloor>js_rem m 60\<rfloor> = \<lfloor>m\<rfloor>"
proof -
  have "\<lfloor>m - 60 * of_int \<lfloor>m / 60\<rfloor>\<rfloor> = \<lfloor>m - of_int (60 * \<lfloor>m / 60\<rfloor>)\<rfloor>"
    by simp
  also have "\<dots> = \<lfloor>m\<rfloor> - 60 * \<lfloor>m / 60\<rfloor>"
    by (rule floor_diff_of_int)
  finally show ?thesis
    using assms by (simp add: js_rem_nonneg)
qed

lemma setHours_regular:
  assumes "tza_utc z t = c"
    and "tza_local z (Day (t + c) * msPerDay + n * msPerMinute) = c"
  shows "setHours z t h (n - h * 60) 0 0 = Day (t + c) * msPerDay - c + n * msPerMinute"
proof -
  have "MakeDate (Day (t + c)) (MakeTime h (n - h * 60) 0 0)
        = Day (t + c) * msPerDay + n * msPerMinute"
    by (simp add: MakeDate_def MakeTime_def msPerHour_def msPerMinute_def algebra_simps)
  then show ?thesis
    using assms by (simp add: setHours_def LocalTime_def UTC_def)
qed

text \<open>
  From a number of minutes that is not negative, \<open>minutesToDate\<close> gives local midnight of
  the base date plus the whole minutes, on a host that is regular at both instants.
\<close>

lemma minutesToDate_nonneg:
  assumes "0 \<le> m" and "tza_utc z t = c"
    and "tza_local z (Day (t + c) * msPerDay + \<lfloor>m\<rfloor> * msPerMinute) = c"
  shows "minutesToDate z t m = Day (t + c) * msPerDay - c + \<lfloor>m\<rfloor> * msPerMinute"
proof -
  have "\<lfloor>js_rem m 60\<rfloor> = \<lfloor>m\<rfloor> - \<lfloor>m / 60\<rfloor> * 60"
    using minutes_split_nonneg [OF assms(1)] by simp
  then show ?thesis
    using setHours_regular [of z t c "\<lfloor>m\<rfloor>" "\<lfloor>m / 60\<rfloor>"] assms(2,3)
    by (simp add: minutesToDate_def Let_def)
qed

section \<open>The four periods\<close>

lemma calc_fields:
  "p_start (brahmaMuhurta (calculateVedicTimes z fmt cfg s))
     = shiftMinutes z (sunriseD s) (- BRAHMA_MUHURTA_MINUTES_BEFORE_SUNRISE cfg)"
  "p_end (brahmaMuhurta (calculateVedicTimes z fmt cfg s))
     = shiftMinutes z (shiftMinutes z (sunriseD s) (- BRAHMA_MUHURTA_MINUTES_BEFORE_SUNRISE cfg))
         (BRAHMA_MUHURTA_DURATION_MINUTES cfg)"
  "p_start (morningSandhya (calculateVedicTimes z fmt cfg s))
     = shiftMinutes z (sunriseD s) (- SANDHYA_DURATION_MINUTES cfg)"
  "p_end (morningSandhya (calculateVedicTimes z fmt cfg s))
     = shiftMinutes z (sunriseD s) (SANDHYA_DURATION_MINUTES cfg)"
  "p_start (noonSandhya (calculateVedicTimes z fmt cfg s))
     = shiftMinutes z (noonD s) (- SANDHYA_DURATION_MINUTES cfg)"
  "p_end (noonSandhya (calculateVedicTimes z fmt cfg s))
     = shiftMinutes z (shiftMinutes z (noonD s) (- SANDHYA_DURATION_MINUTES cfg))
         (SANDHYA_DURATION_MINUTES cfg * 2)"
  "p_start (eveningSandhya (calculateVedicTimes z fmt cfg s))
     = shiftMinutes z (sunsetD s) (- SANDHYA_DURATION_MINUTES cfg)"
  "p_end (eveningSandhya (calculateVedicTimes z fmt cfg s))
     = shiftMinutes z (sunsetD s) (SANDHYA_DURATION_MINUTES cfg)"
  by (simp_all add: calculateVedicTimes_def Let_def)

lemma brahma_window:
  assumes "regular_at z c x" "regular_at z c (x - b * msPerMinute)"
    "regular_at z c (x - b * msPerMinute + d * msPerMinute)"
  shows "shiftMinutes z x (- b) = x - b * msPerMinute"
    and "shiftMinutes z (shiftMinutes z x (- b)) d = x - b * msPerMinute + d * msPerMinute"
proof -
  show 1: "shiftMinutes z x (- b) = x - b * msPerMinute"
    using shiftMinutes_regular [of z c x "- b"] assms by simp
  show "shiftMinutes z (shiftMinutes z x (- b)) d = x - b * msPerMinute + d * msPerMinute"
    unfolding 1 using shiftMinutes_regular [of z c "x - b * msPerMinute" d] assms by simp
qed

lemma sandhya_window:
  assumes "regular_at z c x" "regular_at z c (x - h * msPerMinute)"
    "regular_at z c (x + h * msPerMinute)"
  shows "shiftMinutes z x (- h) = x - h * msPerMinute"
    and "shiftMinutes z x h = x + h * msPerMinute"
    and "shiftMinutes z (shiftMinutes z x (- h)) (h * 2) = x + h * msPerMinute"
proof -
  show 1: "shiftMinutes z x (- h) = x - h * msPerMinute"
    using shiftMinutes_regular [of z c x "- h"] assms by simp
  show "shiftMinutes z x h = x + h * msPerMinute"
    using shiftMinutes_regular [of z c x h] assms by simp
  show "shiftMinutes z (shiftMinutes z x (- h)) (h * 2) = x + h * msPerMinute"
    unfolding 1 using shiftMinutes_regular [of z c "x - h * msPerMinute" "h * 2"] assms
    by (simp add: algebra_simps)
qed

text \<open>Three shifts on the morning the clocks change in Tallinn.\<close>

lemma gap_shift_back: "shiftMinutes tallinn2024 1711847400000 (- 24) = 1711849560000"
  by (simp add: date_defs tallinn2024_def)

lemma gap_shift_forth: "shiftMinutes tallinn2024 1711847400000 24 = 1711848840000"
  by (simp add: date_defs tallinn2024_def)

lemma gap_shift_twice: "shiftMinutes tallinn2024 1711849560000 48 = 1711852440000"
  by (simp add: date_defs tallinn2024_def)

text \<open>
  Claim C5, as amended. When the two durations of the configuration are not negative
  and the host is regular, with one offset, at every instant the rules name, each of the
  four periods starts no later than it ends, the period before dawn lasts
  \<open>BRAHMA_MUHURTA_DURATION_MINUTES\<close> and each of the three sandhya periods twice
  \<open>SANDHYA_DURATION_MINUTES\<close>.
\<close>

theorem window_durations:
  assumes d: "0 \<le> BRAHMA_MUHURTA_DURATION_MINUTES cfg"
    and h: "0 \<le> SANDHYA_DURATION_MINUTES cfg"
    and reg: "list_all (regular_at z c) (window_instants cfg s)"
    and v: "v = calculateVedicTimes z fmt cfg s"
  shows "p_start (brahmaMuhurta v) \<le> p_end (brahmaMuhurta v)
       \<and> p_end (brahmaMuhurta v) - p_start (brahmaMuhurta v)
           = BRAHMA_MUHURTA_DURATION_MINUTES cfg * msPerMinute
       \<and> p_start (morningSandhya v) \<le> p_end (morningSandhya v)
       \<and> p_end (morningSandhya v) - p_start (morningSandhya v)
           = 2 * SANDHYA_DURATION_MINUTES cfg * msPerMinute
       \<and> p_start (noonSandhya v) \<le> p_end (noonSandhya v)
       \<and> p_end (noonSandhya v) - p_start (noonSandhya v)
           = 2 * SANDHYA_DURATION_MINUTES cfg * msPerMinute
       \<and> p_start (eveningSandhya v) \<le> p_end (eveningSandhya v)
       \<and> p_end (eveningSandhya v) - p_start (eveningSandhya v)
           = 2 * SANDHYA_DURATION_MINUTES cfg * msPerMinute"
proof -
  let ?B = "BRAHMA_MUHURTA_MINUTES_BEFORE_SUNRISE cfg"
  let ?D = "BRAHMA_MUHURTA_DURATION_MINUTES cfg"
  let ?H = "SANDHYA_DURATION_MINUTES cfg"
  from reg have r: "regular_at z c (sunriseD s)"
    "regular_at z c (sunriseD s - ?B * msPerMinute)"
    "regular_at z c (sunriseD s - ?B * msPerMinute + ?D * msPerMinute)"
    "regular_at z c (sunriseD s - ?H * msPerMinute)"
    "regular_at z c (sunriseD s + ?H * msPerMinute)"
    "regular_at z c (noonD s)"
    "regular_at z c (noonD s - ?H * msPerMinute)"
    "regular_at z c (noonD s + ?H * msPerMinute)"
    "regular_at z c (sunsetD s)"
    "regular_at z c (sunsetD s - ?H * msPerMinute)"
    "regular_at z c (sunsetD s + ?H * msPerMinute)"
    by (simp_all add: window_instants_def)
  note b = brahma_window [OF r(1) r(2) r(3)]
  note m = sandhya_window [OF r(1) r(4) r(5)]
  note n = sandhya_window [OF r(6) r(7) r(8)]
  note e = sandhya_window [OF r(9) r(10) r(11)]
  have pos: "0 \<le> ?D * msPerMinute" "0 \<le> ?H * msPerMinute"
    using d h by (simp_all add: msPerMinute_def)
  have f: "p_start (brahmaMuhurta v) = sunriseD s - ?B * msPerMinute"
    "p_end (brahmaMuhurta v) = sunriseD s - ?B * msPerMinute + ?D * msPerMinute"
    "p_start (morningSandhya v) = sunriseD s - ?H * msPerMinute"
    "p_end (morningSandhya v) = sunriseD s + ?H * msPerMinute"
    "p_start (noonSandhya v) = noonD s - ?H * msPerMinute"
    "p_end (noonSandhya v) = noonD s + ?H * msPerMinute"
    "p_start (eveningSandhya v) = sunsetD s - ?H * msPerMinute"
    "p_end (eveningSandhya v) = sunsetD s + ?H * msPerMinute"
    unfolding v calc_fields by (rule b m n e)+
  show ?thesis
    unfolding f using pos by simp
qed

text \<open>
  The theorem at the script's constants, in Tallinn on 2024-06-21: the morning sandhya
  starts before it ends and the period before dawn lasts 48 minutes.
\<close>

theorem window_durations_witness:
  "0 \<le> BRAHMA_MUHURTA_DURATION_MINUTES script_config
   \<and> 0 \<le> SANDHYA_DURATION_MINUTES script_config
   \<and> list_all (regular_at tallinn2024 10800000) (window_instants script_config solstice_dates)
   \<and> p_start (morningSandhya
         (calculateVedicTimes tallinn2024 (formatHHmm tallinn2024) script_config solstice_dates))
       \<le> p_end (morningSandhya
         (calculateVedicTimes tallinn2024 (formatHHmm tallinn2024) script_config solstice_dates))
   \<and> p_end (brahmaMuhurta
         (calculateVedicTimes tallinn2024 (formatHHmm tallinn2024) script_config solstice_dates))
       - p_start (brahmaMuhurta
         (calculateVedicTimes tallinn2024 (formatHHmm tallinn2024) script_config solstice_dates))
       = 48 * msPerMinute"
proof -
  have h1: "0 \<le> BRAHMA_MUHURTA_DURATION_MINUTES script_config"
    and h2: "0 \<le> SANDHYA_DURATION_MINUTES script_config"
    by (simp_all add: script_config_def)
  have h3: "list_all (regular_at tallinn2024 10800000)
              (window_instants script_config solstice_dates)"
    by (simp add: window_instants_def script_config_def solstice_dates_def regular_at_def
        tallinn2024_def msPerMinute_def)
  from window_durations [OF h1 h2 h3 refl, of "formatHHmm tallinn2024"] h1 h2 h3
  show ?thesis by (simp add: script_config_def)
qed

text \<open>
  The claim as stated fails twice. With the script's constants, on a host in Tallinn, a
  sunrise at 04:10 on 2024-03-31 gives a morning sandhya from 04:46 to 04:34: the start,
  03:46, is in the hour the clocks skip. With a negative \<open>SANDHYA_DURATION_MINUTES\<close> the
  morning sandhya ends before it starts on any host.
\<close>

theorem window_durations_counterexample:
  "p_end (morningSandhya
      (calculateVedicTimes tallinn2024 (formatHHmm tallinn2024) script_config gap_day_dates))
     < p_start (morningSandhya
      (calculateVedicTimes tallinn2024 (formatHHmm tallinn2024) script_config gap_day_dates))
   \<and> p_end (morningSandhya
      (calculateVedicTimes (fixed_zone 0) (formatHHmm (fixed_zone 0)) negative_config solstice_dates))
     < p_start (morningSandhya
      (calculateVedicTimes (fixed_zone 0) (formatHHmm (fixed_zone 0)) negative_config solstice_dates))"
proof -
  have a: "shiftMinutes (fixed_zone 0) 1718931780000 1 = 1718931840000"
    by (simp add: date_defs fixed_zone_def)
  have b: "shiftMinutes (fixed_zone 0) 1718931780000 (- 1) = 1718931720000"
    by (simp add: date_defs fixed_zone_def)
  show ?thesis
    unfolding calc_fields
    by (simp add: script_config_def gap_day_dates_def negative_config_def solstice_dates_def
        gap_shift_back gap_shift_forth a b)
qed

text \<open>
  Claim C7, as amended. When the host is regular, with one offset, at solar noon and at
  \<open>SANDHYA_DURATION_MINUTES\<close> before and after it, the midday sandhya starts that many
  minutes before solar noon, and its end, which the script computes from the start, is
  the date the symmetric rule gives: solar noon shifted forward by the same minutes.
\<close>

theorem midday_end_symmetric:
  assumes "regular_at z c (noonD s)"
    and "regular_at z c (noonD s - SANDHYA_DURATION_MINUTES cfg * msPerMinute)"
    and "regular_at z c (noonD s + SANDHYA_DURATION_MINUTES cfg * msPerMinute)"
    and "v = calculateVedicTimes z fmt cfg s"
  shows "p_start (noonSandhya v) = noonD s - SANDHYA_DURATION_MINUTES cfg * msPerMinute
       \<and> p_end (noonSandhya v)
           = shiftMinutes z (p_start (noonSandhya v)) (SANDHYA_DURATION_MINUTES cfg * 2)
       \<and> p_end (noonSandhya v) = shiftMinutes z (noonD s) (SANDHYA_DURATION_MINUTES cfg)
       \<and> p_end (noonSandhya v) = noonD s + SANDHYA_DURATION_MINUTES cfg * msPerMinute"
proof -
  note n = sandhya_window [OF assms(1) assms(2) assms(3)]
  have 1: "p_start (noonSandhya v) = noonD s - SANDHYA_DURATION_MINUTES cfg * msPerMinute"
    unfolding assms(4) calc_fields by (rule n)
  have 2: "p_end (noonSandhya v) = noonD s + SANDHYA_DURATION_MINUTES cfg * msPerMinute"
    unfolding assms(4) calc_fields by (rule n)
  have 3: "p_end (noonSandhya v)
           = shiftMinutes z (p_start (noonSandhya v)) (SANDHYA_DURATION_MINUTES cfg * 2)"
    unfolding assms(4) calc_fields by (rule refl)
  show ?thesis
    using 1 2 3 n(2) by simp
qed

text \<open>
  The theorem in Tallinn on 2024-06-21, solar noon at 13:22: the midday sandhya ends at
  13:46, which is 10:46Z.
\<close>

theorem midday_end_symmetric_witness:
  "regular_at tallinn2024 10800000 (noonD solstice_dates)
   \<and> regular_at tallinn2024 10800000
        (noonD solstice_dates - SANDHYA_DURATION_MINUTES script_config * msPerMinute)
   \<and> regular_at tallinn2024 10800000
        (noonD solstice_dates + SANDHYA_DURATION_MINUTES script_config * msPerMinute)
   \<and> p_end (noonSandhya
         (calculateVedicTimes tallinn2024 (formatHHmm tallinn2024) script_config solstice_dates))
       = shiftMinutes tallinn2024 (noonD solstice_dates) (SANDHYA_DURATION_MINUTES script_config)
   \<and> p_end (noonSandhya
         (calculateVedicTimes tallinn2024 (formatHHmm tallinn2024) script_config solstice_dates))
       = 1718966760000"
proof -
  have h1: "regular_at tallinn2024 10800000 (noonD solstice_dates)"
    and h2: "regular_at tallinn2024 10800000
        (noonD solstice_dates - SANDHYA_DURATION_MINUTES script_config * msPerMinute)"
    and h3: "regular_at tallinn2024 10800000
        (noonD solstice_dates + SANDHYA_DURATION_MINUTES script_config * msPerMinute)"
    by (simp_all add: script_config_def solstice_dates_def regular_at_def
        tallinn2024_def msPerMinute_def)
  have e: "noonD solstice_dates + SANDHYA_DURATION_MINUTES script_config * msPerMinute
           = 1718966760000"
    by (simp add: script_config_def solstice_dates_def msPerMinute_def)
  note t = midday_end_symmetric [OF h1 h2 h3 refl, of "formatHHmm tallinn2024"]
  from t have c3: "p_end (noonSandhya
         (calculateVedicTimes tallinn2024 (formatHHmm tallinn2024) script_config solstice_dates))
       = shiftMinutes tallinn2024 (noonD solstice_dates) (SANDHYA_DURATION_MINUTES script_config)"
    by blast
  from t have "p_end (noonSandhya
         (calculateVedicTimes tallinn2024 (formatHHmm tallinn2024) script_config solstice_dates))
       = noonD solstice_dates + SANDHYA_DURATION_MINUTES script_config * msPerMinute"
    by blast
  then have c4: "p_end (noonSandhya
         (calculateVedicTimes tallinn2024 (formatHHmm tallinn2024) script_config solstice_dates))
       = 1718966760000"
    by (simp only: e)
  show ?thesis
    using h1 h2 h3 c3 c4 by blast
qed

text \<open>
  The claim as stated fails on a host in Tallinn for a solar noon at 04:10 on 2024-03-31,
  with the script's constants. Twenty-four minutes earlier is 03:46, a time the clocks
  skip, which the host reads as 04:46: the start is after solar noon. Forty-eight minutes
  on, the end is 05:34, one hour after 04:34, the end the symmetric rule gives.
\<close>

theorem midday_end_symmetric_counterexample:
  "p_end (noonSandhya
      (calculateVedicTimes tallinn2024 (formatHHmm tallinn2024) script_config gap_day_dates))
     \<noteq> shiftMinutes tallinn2024 (noonD gap_day_dates) (SANDHYA_DURATION_MINUTES script_config)
   \<and> p_end (noonSandhya
      (calculateVedicTimes tallinn2024 (formatHHmm tallinn2024) script_config gap_day_dates))
     \<noteq> noonD gap_day_dates + SANDHYA_DURATION_MINUTES script_config * msPerMinute
   \<and> p_start (noonSandhya
      (calculateVedicTimes tallinn2024 (formatHHmm tallinn2024) script_config gap_day_dates))
     \<noteq> noonD gap_day_dates - SANDHYA_DURATION_MINUTES script_config * msPerMinute"
  unfolding calc_fields
  by (simp add: script_config_def gap_day_dates_def gap_shift_back gap_shift_forth
      gap_shift_twice msPerMinute_def)

section \<open>Whole minutes\<close>








section \<open>The offset string\<close>

lemma digit_table:
  "list_all (\<lambda>i. (of_char (''0123456789'' ! i) :: int) = 48 + int i
                  \<and> ''0123456789'' ! i \<noteq> CHR ''-'' \<and> ''0123456789'' ! i \<noteq> CHR ''+'')
     [0..<10]"
  by (simp add: upt_rec)

lemma digit_char_value:
  assumes "0 \<le> n" "n < 10"
  shows "(of_char (digit_char n) :: int) = 48 + n"
proof -
  have "nat n \<in> set [0..<10]"
    using assms by simp
  then show ?thesis
    using digit_table assms(1) unfolding list_all_iff digit_char_def by fastforce
qed

lemma digit_char_no_sign:
  assumes "0 \<le> n" "n < 10"
  shows "digit_char n \<noteq> CHR ''-'' \<and> digit_char n \<noteq> CHR ''+''"
proof -
  have "nat n \<in> set [0..<10]"
    using assms by simp
  then show ?thesis
    using digit_table unfolding list_all_iff digit_char_def by blast
qed

lemma parseDigits_two:
  assumes "0 \<le> n" "n < 100"
  shows "parseDigits [digit_char (n div 10), digit_char (n mod 10)] = Some n"
proof -
  have d: "0 \<le> n div 10" "n div 10 < 10" "0 \<le> n mod 10" "n mod 10 < 10"
    using assms by auto
  have v: "(of_char (digit_char (n div 10)) :: int) = 48 + n div 10"
    "(of_char (digit_char (n mod 10)) :: int) = 48 + n mod 10"
    using d by (simp_all add: digit_char_value)
  have g: "is_digit (digit_char (n div 10))" "is_digit (digit_char (n mod 10))"
    using d by (simp_all add: is_digit_def v)
  show ?thesis
    by (simp add: parseDigits_def g v)
qed

text \<open>
  What the script reads from the string the platform writes for an offset: the offset
  itself when it is not negative, and otherwise the hours with their sign and the
  minutes without it.
\<close>

lemma formatZ_parse:
  assumes "\<bar>off\<bar> < 6000"
  shows "tzOffsetMinutes (formatZ off)
         = Some (if off < 0 then - (\<bar>off\<bar> div 60 * 60) + \<bar>off\<bar> mod 60 else off)"
proof -
  define h where "h = \<bar>off\<bar> div 60"
  define m where "m = \<bar>off\<bar> mod 60"
  have hb: "0 \<le> h" "h < 100" using assms by (auto simp: h_def)
  have mb: "0 \<le> m" "m < 100" by (auto simp: m_def intro: less_trans)
  have t3: "take 3 (formatZ off)
            = [if off < 0 then CHR ''-'' else CHR ''+'', digit_char (h div 10), digit_char (h mod 10)]"
    and d3: "drop 3 (formatZ off) = [digit_char (m div 10), digit_char (m mod 10)]"
    by (simp_all add: formatZ_def Let_def h_def m_def)
  have pa: "parseInt (take 3 (formatZ off)) = Some (if off < 0 then - h else h)"
    unfolding t3 using parseDigits_two [OF hb] by simp
  have md: "0 \<le> m div 10" "m div 10 < 10"
    using mb by (auto simp: m_def)
  have pb: "parseInt (drop 3 (formatZ off)) = Some m"
    unfolding d3 using parseDigits_two [OF mb] digit_char_no_sign [OF md] by simp
  have om: "\<bar>off\<bar> = h * 60 + m" by (simp add: h_def m_def)
  show ?thesis
    unfolding tzOffsetMinutes_def pa pb h_def [symmetric] m_def [symmetric]
    using om by (auto simp add: abs_if)
qed


lemma tz_plus_0000: "tzOffsetMinutes ''+0000'' = Some 0"
  by (simp add: tzOffsetMinutes_def parseDigits_def is_digit_def)

section \<open>The sun times\<close>

lemma getSunTimes_Some:
  assumes "tzOffsetMinutes tzString = Some tz"
  shows "getSunTimes z date lat lng tzString =
    Some \<lparr>sunrise = 720 - 4 * lng - eqTime (gamma (dayOfYear z date)) + of_int tz
               - haMinutes (limitCosH (cosH lat (decl (gamma (dayOfYear z date))))),
          solarNoon = 720 - 4 * lng - eqTime (gamma (dayOfYear z date)) + of_int tz,
          sunset = 720 - 4 * lng - eqTime (gamma (dayOfYear z date)) + of_int tz
               + haMinutes (limitCosH (cosH lat (decl (gamma (dayOfYear z date)))))\<rparr>"
  using assms by (simp add: getSunTimes_def sunTimesOf_def Let_def)

lemma getSunTimes_None:
  "(getSunTimes z date lat lng tzString = None) = (tzOffsetMinutes tzString = None)"
  by (cases "tzOffsetMinutes tzString") (simp_all add: getSunTimes_def Let_def)

lemma getSunTimesAsDate_Some:
  assumes "getSunTimes z date lat lng tzString = Some r"
  shows "getSunTimesAsDate z date lat lng tzString =
    Some \<lparr>sunriseD = minutesToDate z date (sunrise r),
          noonD = minutesToDate z date (solarNoon r),
          sunsetD = minutesToDate z date (sunset r)\<rparr>"
  using assms by (simp add: getSunTimesAsDate_def)

lemma limitCosH_range: "- 1 \<le> limitCosH c \<and> limitCosH c \<le> 1"
  by (simp add: limitCosH_def Let_def)


lemma Math_PI_pos: "0 < Math_PI"
  by (simp add: Math_PI_def)

lemma haMinutes_range:
  assumes "- 1 \<le> c" "c \<le> 1"
  shows "0 \<le> haMinutes c" and "haMinutes c \<le> haMinutes (- 1)"
proof -
  have a: "0 \<le> arccos c" "arccos c \<le> pi"
    using assms by (simp_all add: arccos_lbound arccos_ubound)
  have e: "haMinutes x = arccos x * 720 / Math_PI" for x
    by (simp add: haMinutes_def Let_def)
  show "0 \<le> haMinutes c"
    unfolding e using a(1) Math_PI_pos by simp
  have "arccos c * 720 \<le> arccos (- 1) * 720"
    using a(2) by simp
  then show "haMinutes c \<le> haMinutes (- 1)"
    unfolding e using Math_PI_pos by (simp add: divide_right_mono)
qed


text \<open>Sunrise, solar noon and sunset, as minutes, are in this order for every input.\<close>

lemma sun_minutes_ordered:
  assumes "getSunTimes z date lat lng tzString = Some r"
  shows "sunrise r \<le> solarNoon r \<and> solarNoon r \<le> sunset r"
proof -
  from assms obtain tz where tz: "tzOffsetMinutes tzString = Some tz"
    using getSunTimes_None [of z date lat lng tzString] by (cases "tzOffsetMinutes tzString") auto
  let ?c = "limitCosH (cosH lat (decl (gamma (dayOfYear z date))))"
  have "0 \<le> haMinutes ?c"
    using haMinutes_range(1) limitCosH_range by blast
  then show ?thesis
    using assms unfolding getSunTimes_Some [OF tz] by auto
qed

text \<open>
  Claim C3, as amended. \<open>getSunTimesAsDate\<close> has no check of the latitude or the
  longitude and no error for them: for every latitude and longitude, in range or not, it
  returns a result exactly when the offset string can be read.
\<close>

theorem no_location_check:
  "(getSunTimesAsDate z date lat lng tzString = None) = (tzOffsetMinutes tzString = None)"
proof (cases "getSunTimes z date lat lng tzString")
  case None
  then show ?thesis
    using getSunTimes_None [of z date lat lng tzString] by (simp add: getSunTimesAsDate_def)
next
  case (Some r)
  then show ?thesis
    using getSunTimes_None [of z date lat lng tzString] by (simp add: getSunTimesAsDate_def)
qed

text \<open>
  The claim as stated fails at latitude 91 and at longitude 200: both calls return a
  result.
\<close>

theorem no_location_check_counterexample:
  "getSunTimesAsDate (fixed_zone 0) 0 91 0 ''+0000'' \<noteq> None
   \<and> getSunTimesAsDate (fixed_zone 0) 0 0 200 ''+0000'' \<noteq> None"
  by (simp add: getSunTimesAsDate_def getSunTimes_Some [OF tz_plus_0000])

text \<open>
  Claim C6. The script does not compute solar noon from the offset of the zone when the
  offset is negative and not a whole number of hours. For UTC-03:30 (America/St_Johns in
  winter, offset -210) the platform writes \<open>-0330\<close>, the script reads -3 hours and +30
  minutes, and solar noon is computed with -150.
\<close>

theorem offset_negative_half_hour:
  "formatZ (- 210) = ''-0330''
   \<and> tzOffsetMinutes (formatZ (- 210)) = Some (- 150)
   \<and> map_option solarNoon (getSunTimes z date lat lng (formatZ (- 210)))
       = Some (720 - 4 * lng - eqTime (gamma (dayOfYear z date)) + (- 150))"
proof -
  have a: "formatZ (- 210) = ''-0330''"
    by (simp add: formatZ_def digit_char_def Let_def)
  have b: "tzOffsetMinutes ''-0330'' = Some (- 150)"
    by (simp add: tzOffsetMinutes_def parseDigits_def is_digit_def)
  show ?thesis
    unfolding a using b by (simp add: getSunTimes_Some [OF b])
qed

section \<open>The conversion to dates\<close>

text \<open>
  For minutes that are not negative the conversion does what the specification asks, on
  every host.
\<close>

lemma minutesToDate_meets_spec:
  assumes "0 \<le> m"
  shows "minutesToDate z t m = minutesToDate_spec z t m"
proof -
  have "\<lfloor>m / 60\<rfloor> * msPerHour + \<lfloor>js_rem m 60\<rfloor> * msPerMinute = \<lfloor>m\<rfloor> * msPerMinute"
    using minutes_split_nonneg [OF assms] by (simp add: msPerHour_def msPerMinute_def)
  then show ?thesis
    using assms
    by (simp add: minutesToDate_def minutesToDate_spec_def setHours_def MakeDate_def
        MakeTime_def trunc_def Let_def)
qed

text \<open>
  Claim C2. The conversion does not return local midnight plus the minutes when the
  minutes are negative: from midnight of 1970-01-01 on a UTC host, -30 minutes give
  1969-12-31T22:30, ninety minutes before midnight, where the specification asks for
  23:30. The hour is \<open>floor (-30 / 60) = -1\<close> and the minutes are \<open>-30 % 60 = -30\<close>.
\<close>

theorem minutesToDate_negative:
  "minutesToDate (fixed_zone 0) 0 (- 30) = - 5400000
   \<and> minutesToDate_spec (fixed_zone 0) 0 (- 30) = - 1800000"
proof -
  have f1: "\<lfloor>(- 30 :: real) / 60\<rfloor> = - 1"
    by (simp add: floor_eq_iff)
  have f2: "trunc ((- 30) / 60) = 0"
    by (simp add: trunc_def ceiling_eq_iff)
  have f3: "js_rem (- 30) 60 = - 30"
    unfolding js_rem_def f2 by simp
  have f4: "\<lfloor>js_rem (- 30) 60\<rfloor> = - 30"
    unfolding f3 by simp
  have a: "minutesToDate (fixed_zone 0) 0 (- 30) = - 5400000"
    unfolding minutesToDate_def Let_def f1 f4
    by (simp add: setHours_def UTC_def LocalTime_def MakeDate_def MakeTime_def
      Day_def fixed_zone_def msPerDay_def msPerHour_def msPerMinute_def)
  have b: "minutesToDate_spec (fixed_zone 0) 0 (- 30) = - 1800000"
    by (simp add: minutesToDate_spec_def trunc_def UTC_def LocalTime_def MakeDate_def
      Day_def fixed_zone_def msPerDay_def msPerMinute_def)
  show ?thesis using a b by simp
qed

text \<open>
  The conversion on a host with one offset, for every number of minutes. Minutes that are
  negative and no whole number of hours come out sixty minutes early: the hours are
  rounded down and the remainder, which keeps the sign of the minutes, is taken off
  once more. Negative whole hours, and minutes that are not negative, come out right.
\<close>

lemma minutesToDate_fixed:
  "minutesToDate (fixed_zone c) t m
   = Day (t + c) * msPerDay - c
     + (if m < 0 \<and> m / 60 \<noteq> of_int \<lfloor>m / 60\<rfloor> then \<lfloor>m\<rfloor> - 60 else \<lfloor>m\<rfloor>) * msPerMinute"
proof (cases "0 \<le> m")
  case True
  have "minutesToDate (fixed_zone c) t m = Day (t + c) * msPerDay - c + \<lfloor>m\<rfloor> * msPerMinute"
    by (rule minutesToDate_nonneg [OF True]) (simp_all add: fixed_zone_def)
  then show ?thesis
    using True by simp
next
  case False
  then have neg: "m < 0" by simp
  define k where "k = \<lfloor>m / 60\<rfloor>"
  have s: "setHours (fixed_zone c) t h n 0 0
      = Day (t + c) * msPerDay - c + (h * 60 + n) * msPerMinute" for h n
    by (simp add: setHours_def UTC_def LocalTime_def MakeDate_def MakeTime_def fixed_zone_def
        msPerHour_def msPerMinute_def msPerSecond_def algebra_simps)
  show ?thesis
  proof (cases "m / 60 = of_int k")
    case True
    then have m: "m = 60 * of_int k" by simp
    have "trunc (m / 60) = k"
      unfolding True using neg by (simp add: trunc_def)
    then have r: "js_rem m 60 = 0"
      unfolding js_rem_def using m by simp
    have f: "\<lfloor>m\<rfloor> = 60 * k"
      unfolding m by (simp add: floor_eq_iff)
    show ?thesis
      unfolding minutesToDate_def Let_def r s k_def [symmetric] f
      using True by (simp add: k_def)
  next
    case False
    have "\<lceil>m / 60\<rceil> = k + 1"
      using False by (simp add: ceiling_altdef k_def)
    then have q: "trunc (m / 60) = k + 1"
      using neg by (simp add: trunc_def)
    have "\<lfloor>m - of_int (60 * (k + 1))\<rfloor> = \<lfloor>m\<rfloor> - 60 * (k + 1)"
      by (rule floor_diff_of_int)
    then have r: "\<lfloor>js_rem m 60\<rfloor> = \<lfloor>m\<rfloor> - 60 * (k + 1)"
      unfolding js_rem_def q by simp
    show ?thesis
      unfolding minutesToDate_def Let_def r s k_def [symmetric]
      using False neg by (simp add: k_def)
  qed
qed

text \<open>
  The conversion reads the minutes as a local time of the host, so it does not keep their
  order across an hour that the clocks skip: from a base date of 2024-03-31 in Tallinn,
  minute 230 is 03:50, which does not exist and becomes 04:50, and minute 250 is 04:10.
\<close>

lemma minutesToDate_gap:
  "minutesToDate tallinn2024 1711875600000 230 = 1711849800000"
  "minutesToDate tallinn2024 1711875600000 250 = 1711847400000"
proof -
  have a: "\<lfloor>230 / 60 :: real\<rfloor> = 3" "\<lfloor>250 / 60 :: real\<rfloor> = 4"
    by (simp_all add: floor_eq_iff)
  have "trunc (230 / 60) = 3" "trunc (250 / 60) = 4"
    using a by (simp_all add: trunc_def)
  then have b: "js_rem 230 60 = 50" "js_rem 250 60 = 10"
    by (simp_all add: js_rem_def)
  show "minutesToDate tallinn2024 1711875600000 230 = 1711849800000"
    unfolding minutesToDate_def Let_def a b
    by (simp add: date_defs tallinn2024_def)
  show "minutesToDate tallinn2024 1711875600000 250 = 1711847400000"
    unfolding minutesToDate_def Let_def a b
    by (simp add: date_defs tallinn2024_def)
qed

section \<open>The day of the year\<close>

text \<open>
  \<open>YearFromTime\<close> is the year of the time value: the time value lies between the first
  day of that year and the first day of the next, and the ordinal day is between 1 and 366.
\<close>

lemma div_next:
  fixes a k :: int
  assumes "0 < k"
  shows "(a + 1) div k = a div k + (if k dvd a + 1 then 1 else 0)"
proof -
  have e: "a + 1 = (a mod k + 1) + k * (a div k)"
    by simp
  have g: "(r + k * q) div k = q + r div k" for r q
    using assms by simp
  have "(a + 1) div k = ((a mod k + 1) + k * (a div k)) div k"
    by (rule arg_cong [where f = "\<lambda>x. x div k"]) (rule e)
  also have "\<dots> = a div k + (a mod k + 1) div k"
    by (rule g)
  finally have d: "(a + 1) div k = a div k + (a mod k + 1) div k" .
  have b: "0 \<le> a mod k" "a mod k < k"
    using assms by simp_all
  show ?thesis
  proof (cases "a mod k + 1 = k")
    case True
    then have "a + 1 = k + k * (a div k)"
      using e by linarith
    then have "a + 1 = k * (a div k + 1)"
      by (simp only: distrib_left mult_1_right add.commute)
    then have "k dvd a + 1"
      by (metis dvd_triv_left)
    then show ?thesis
      using d True assms by simp
  next
    case False
    then have s: "a mod k + 1 < k" using b by linarith
    then have z: "(a mod k + 1) div k = 0"
      using b by (simp add: div_pos_pos_trivial)
    have "\<not> k dvd a + 1"
    proof
      assume "k dvd a + 1"
      then have "k dvd (a mod k + 1) + k * (a div k)"
        unfolding e [symmetric] .
      moreover have "k dvd k * (a div k)"
        by (rule dvd_triv_left)
      ultimately have "k dvd a mod k + 1"
        by (simp only: dvd_add_left_iff)
      then have "k \<le> a mod k + 1" using b by (intro zdvd_imp_le) simp_all
      then show False using s by simp
    qed
    then show ?thesis using d z by simp
  qed
qed

lemma year_length:
  fixes y :: int
  shows "(y + 1 - 1969) div 4 - (y + 1 - 1901) div 100 + (y + 1 - 1601) div 400
         \<le> (y - 1969) div 4 - (y - 1901) div 100 + (y - 1601) div 400 + 1"
proof -
  have a: "(y - 1969 + 1) div 4 = (y - 1969) div 4 + (if 4 dvd y - 1969 + 1 then 1 else 0)"
    by (rule div_next) simp
  have b: "(y - 1901 + 1) div 100 = (y - 1901) div 100 + (if 100 dvd y - 1901 + 1 then 1 else 0)"
    by (rule div_next) simp
  have c: "(y - 1601 + 1) div 400 = (y - 1601) div 400 + (if 400 dvd y - 1601 + 1 then 1 else 0)"
    by (rule div_next) simp
  have i: "400 dvd y - 1601 + 1 \<Longrightarrow> 100 dvd y - 1901 + 1"
  proof -
    assume "400 dvd y - 1601 + 1"
    then obtain q where "y - 1601 + 1 = 400 * q" by (auto simp: dvd_def)
    then have "y - 1901 + 1 = 100 * (4 * q - 3)" by simp
    then show ?thesis by (metis dvd_triv_left)
  qed
  have r: "y + 1 - 1969 = y - 1969 + 1" "y + 1 - 1901 = y - 1901 + 1" "y + 1 - 1601 = y - 1601 + 1"
    by simp_all
  show ?thesis
    unfolding r a b c using i by auto
qed

lemma leap_days_nonneg:
  fixes n :: int
  assumes "0 \<le> n"
  shows "(n + 1) div 4 - (n + 69) div 100 + (n + 369) div 400 \<le> n"
proof -
  have a: "(n + 1) div 4 \<le> n" using assms by linarith
  have "(n + 369) div 400 \<le> (n + 69) div 100"
  proof (cases "n < 31")
    case True
    then have "(n + 369) div 400 = 0" using assms by simp
    moreover have "0 \<le> (n + 69) div 100" using assms by simp
    ultimately show ?thesis by simp
  next
    case False
    then have "(n + 369) div 400 \<le> ((n + 69) * 4) div 400"
      by (intro zdiv_mono1) auto
    also have "\<dots> = (n + 69) div 100" by simp
    finally show ?thesis .
  qed
  then show ?thesis using a by linarith
qed

lemma leap_days_neg:
  fixes n :: int
  assumes "n < 0"
  shows "(n + 1) div 4 - (n + 69) div 100 + (n + 369) div 400 \<le> 0"
proof -
  have "(n + 1) div 4 = ((n + 1) * 25) div 100" by simp
  also have "\<dots> \<le> (n + 69) div 100"
    using assms by (intro zdiv_mono1) auto
  finally have a: "(n + 1) div 4 \<le> (n + 69) div 100" .
  have "(n + 369) div 400 \<le> 399 div 400"
    using assms by (intro zdiv_mono1) auto
  then have c: "(n + 369) div 400 \<le> 0" by simp
  show ?thesis using a c by linarith
qed

lemma DayFromYear_shift:
  "DayFromYear (1970 + n) = 365 * n + ((n + 1) div 4 - (n + 69) div 100 + (n + 369) div 400)"
  by (simp add: DayFromYear_def add.commute)

lemma lin_start:
  fixes n d k :: int
  shows "366 * n \<le> d \<Longrightarrow> k \<le> n \<Longrightarrow> 365 * n + k \<le> d"
    and "365 * n \<le> d \<Longrightarrow> k \<le> 0 \<Longrightarrow> 365 * n + k \<le> d"
  by linarith+

lemma lin_year:
  fixes y a1 b1 c1 a0 b0 c0 :: int
  assumes "a1 - b1 + c1 \<le> a0 - b0 + c0 + 1"
  shows "365 * (y + 1 - 1970) + a1 - b1 + c1 \<le> 365 * (y - 1970) + a0 - b0 + c0 + 366"
  using assms by simp

lemma year_start_le:
  "DayFromYear (if 0 \<le> d then 1970 + d div 366 else 1970 + d div 365) \<le> d"
proof (cases "0 \<le> d")
  case True
  let ?n = "d div 366"
  have n: "0 \<le> ?n" using True by simp
  have "?n * 366 + d mod 366 = d" "0 \<le> d mod 366"
    by simp_all
  then have "366 * ?n \<le> d"
    by linarith
  then have "DayFromYear (1970 + ?n) \<le> d"
    unfolding DayFromYear_shift using leap_days_nonneg [OF n] by (rule lin_start(1))
  then show ?thesis
    using True by simp
next
  case False
  let ?n = "d div 365"
  have n: "?n < 0" using False by (simp add: div_neg_pos_less0)
  have "?n * 365 + d mod 365 = d" "0 \<le> d mod 365"
    by simp_all
  then have "365 * ?n \<le> d"
    by linarith
  then have "DayFromYear (1970 + ?n) \<le> d"
    unfolding DayFromYear_shift using leap_days_neg [OF n] by (rule lin_start(2))
  then show ?thesis
    using False by simp
qed

lemma yearFrom_range:
  assumes "DayFromYear y \<le> d"
  shows "DayFromYear (yearFrom d y) \<le> d \<and> d < DayFromYear (yearFrom d y + 1)"
  using assms
proof (induction d y rule: yearFrom.induct)
  case (1 d y)
  show ?case
  proof (cases "DayFromYear (y + 1) \<le> d")
    case True
    then show ?thesis
      using "1.IH" [OF True True] by (simp add: yearFrom.simps [of d y])
  next
    case False
    then show ?thesis
      using "1.prems" by (simp add: yearFrom.simps [of d y])
  qed
qed

lemma YearFromTime_range:
  "DayFromYear (YearFromTime t) \<le> Day t \<and> Day t < DayFromYear (YearFromTime t + 1)"
  unfolding YearFromTime_def Let_def
  by (rule yearFrom_range) (rule year_start_le)

lemma ordinalDay_range: "1 \<le> ordinalDay z t \<and> ordinalDay z t \<le> 366"
proof -
  let ?t = "LocalTime z t"
  let ?y = "YearFromTime ?t"
  note r = YearFromTime_range [of ?t]
  have "DayFromYear (?y + 1) \<le> DayFromYear ?y + 366"
    unfolding DayFromYear_def by (rule lin_year) (rule year_length)
  then show ?thesis
    using r by (simp add: ordinalDay_def DayWithinYear_def)
qed

lemma ordinalDay_examples:
  "ordinalDay (fixed_zone 0) 1704067200000 = 1"
  "ordinalDay (fixed_zone 0) 1735603200000 = 366"
  "ordinalDay (fixed_zone 0) 1703980800000 = 365"
  by (simp_all add: ordinalDay_def DayWithinYear_def YearFromTime_def LocalTime_def fixed_zone_def
      Day_def msPerDay_def yearFrom.simps DayFromYear_def Let_def)

lemma year_solstice_night: "YearFromTime (LocalTime tallinn2024 solstice_night) = 2024"
  by (simp add: solstice_night_def YearFromTime_def LocalTime_def tallinn2024_def Day_def
      msPerDay_def yearFrom.simps DayFromYear_def Let_def)

lemma year_epoch: "YearFromTime 0 = 1970"
  by (simp add: YearFromTime_def Day_def msPerDay_def yearFrom.simps DayFromYear_def Let_def)

lemma dayOfYear_epoch: "dayOfYear (fixed_zone 0) 0 = 1"
proof -
  have y: "getFullYear (fixed_zone 0) 0 = 1970"
    by (simp add: getFullYear_def LocalTime_def fixed_zone_def year_epoch)
  show ?thesis
    unfolding dayOfYear_def y
    by (simp add: newDate_year_0_0_def MakeDay_month0_def DayFromYear_def UTC_def
        MakeDate_def MakeTime_def msPerDay_def fixed_zone_def Let_def)
qed

text \<open>
  The script's day of the year is the ordinal day when the host has, at the date, the
  offset it has at the start of the year, and the year is not one of 0 to 99.
\<close>

lemma dayOfYear_regular:
  assumes y: "getFullYear z t < 0 \<or> 99 < getFullYear z t"
    and u: "tza_utc z t = c"
    and l: "tza_local z ((DayFromYear (getFullYear z t) - 1) * msPerDay) = c"
  shows "dayOfYear z t = ordinalDay z t"
proof -
  let ?y = "getFullYear z t"
  have s: "newDate_year_0_0 z ?y = (DayFromYear ?y - 1) * msPerDay - c"
    using y l by (auto simp add: newDate_year_0_0_def MakeDay_month0_def MakeDate_def
        MakeTime_def UTC_def Let_def)
  have "t - newDate_year_0_0 z ?y = (t + c) + (1 - DayFromYear ?y) * msPerDay"
    unfolding s by (simp add: algebra_simps)
  then have "(t - newDate_year_0_0 z ?y) div msPerDay = (t + c) div msPerDay + (1 - DayFromYear ?y)"
    by (simp add: msPerDay_def)
  moreover have "dayOfYear z t = (t - newDate_year_0_0 z ?y) div msPerDay"
  proof -
    have "dayOfYear z t
          = \<lfloor>real_of_int (t - newDate_year_0_0 z ?y) / real_of_int (1000 * 60 * 60 * 24)\<rfloor>"
      unfolding dayOfYear_def Let_def by (rule refl)
    also have "\<dots> = (t - newDate_year_0_0 z ?y) div (1000 * 60 * 60 * 24)"
      by (rule floor_divide_of_int_eq)
    finally show ?thesis
      by (simp add: msPerDay_def)
  qed
  ultimately show ?thesis
    using u by (simp add: ordinalDay_def DayWithinYear_def Day_def LocalTime_def getFullYear_def)
qed


text \<open>
  Claim C9. The script's day of the year is not the ordinal day for a date in the first
  hour of a summer day on a host that keeps summer time. For 2024-06-21T00:00 in Tallinn
  the start of the year is 2023-12-31T00:00 at UTC+2, the date is at UTC+3, the
  difference is 172 days and 23 hours, and the script takes day 172; June 21 is day 173.
\<close>

theorem dayOfYear_summer_night:
  "dayOfYear tallinn2024 solstice_night = 172 \<and> ordinalDay tallinn2024 solstice_night = 173"
proof -
  have a: "dayOfYear tallinn2024 solstice_night = 172"
    unfolding dayOfYear_def getFullYear_def year_solstice_night
    by (simp add: solstice_night_def newDate_year_0_0_def MakeDay_month0_def
      DayFromYear_def UTC_def MakeDate_def MakeTime_def msPerDay_def tallinn2024_def Let_def)
  have b: "ordinalDay tallinn2024 solstice_night = 173"
    unfolding ordinalDay_def DayWithinYear_def year_solstice_night
    by (simp add: solstice_night_def LocalTime_def tallinn2024_def Day_def msPerDay_def
      DayFromYear_def)
  show ?thesis using a b by simp
qed

section \<open>Whole minutes at the interface\<close>



section \<open>Bounds for pi, sine and cosine\<close>

text \<open>
  Partial sums of the series of the arc tangent enclose it, and with Machin's formula
  they enclose \<open>pi\<close>.
\<close>

lemma sum_upto_5:
  fixes f :: "nat \<Rightarrow> real"
  shows "(\<Sum>m<2. f m) = f 0 + f 1"
    and "(\<Sum>m<3. f m) = f 0 + f 1 + f 2"
    and "(\<Sum>m<4. f m) = f 0 + f 1 + f 2 + f 3"
    and "(\<Sum>m<5. f m) = f 0 + f 1 + f 2 + f 3 + f 4"
  by (simp_all add: eval_nat_numeral lessThan_Suc)

lemma sum_upto_13:
  fixes f :: "nat \<Rightarrow> real"
  shows "(\<Sum>m<12. f m)
      = f 0 + f 1 + f 2 + f 3 + f 4 + f 5 + f 6 + f 7 + f 8 + f 9 + f 10 + f 11"
    and "(\<Sum>m<13. f m)
      = f 0 + f 1 + f 2 + f 3 + f 4 + f 5 + f 6 + f 7 + f 8 + f 9 + f 10 + f 11 + f 12"
  by (simp_all add: eval_nat_numeral lessThan_Suc)

lemma arctan_partial:
  fixes x :: real
  assumes "0 \<le> x" "x \<le> 1"
  shows "(\<Sum>i<2 * n. (- 1) ^ i * (1 / real (i * 2 + 1) * x ^ (i * 2 + 1))) \<le> arctan x"
    and "arctan x \<le> (\<Sum>i<2 * n + 1. (- 1) ^ i * (1 / real (i * 2 + 1) * x ^ (i * 2 + 1)))"
proof -
  let ?a = "\<lambda>n. 1 / real (n * 2 + 1) * x ^ (n * 2 + 1)"
  have ax: "\<bar>x\<bar> \<le> 1" using assms by simp
  have z: "?a \<longlonglongrightarrow> 0"
    by (rule zeroseq_arctan_series [OF ax])
  have p: "0 \<le> ?a k" for k
    using assms by simp
  have m: "?a (Suc k) \<le> ?a k" for k
  proof -
    have "x ^ (Suc k * 2 + 1) \<le> x ^ (k * 2 + 1)"
      using assms by (intro power_decreasing) simp_all
    moreover have "1 / real (Suc k * 2 + 1) \<le> 1 / real (k * 2 + 1)"
      by (intro divide_left_mono) simp_all
    ultimately show ?thesis
      using assms by (intro mult_mono) simp_all
  qed
  note l = summable_Leibniz' [of ?a, OF z p m]
  have e: "arctan x = (\<Sum>k. (- 1) ^ k * ?a k)"
    by (rule arctan_series [OF ax])
  show "(\<Sum>i<2 * n. (- 1) ^ i * ?a i) \<le> arctan x"
    unfolding e by (rule l(2))
  show "arctan x \<le> (\<Sum>i<2 * n + 1. (- 1) ^ i * ?a i)"
    unfolding e by (rule l(4))
qed

lemma arctan_5_bounds:
  "0.19739555984988075824 \<le> arctan (1 / 5 :: real)"
  "arctan (1 / 5 :: real) \<le> 0.19739555984988075838"
proof -
  have "(0.19739555984988075824 :: real)
      \<le> (\<Sum>i<2 * 6. (- 1) ^ i * (1 / real (i * 2 + 1) * (1 / 5) ^ (i * 2 + 1)))"
    by (simp add: sum_upto_13 power_divide)
  also have "\<dots> \<le> arctan (1 / 5)"
    by (rule arctan_partial) simp_all
  finally show "0.19739555984988075824 \<le> arctan (1 / 5 :: real)" .
  have "arctan (1 / 5 :: real)
      \<le> (\<Sum>i<2 * 6 + 1. (- 1) ^ i * (1 / real (i * 2 + 1) * (1 / 5) ^ (i * 2 + 1)))"
    by (rule arctan_partial) simp_all
  also have "\<dots> \<le> 0.19739555984988075838"
    by (simp add: sum_upto_13 power_divide)
  finally show "arctan (1 / 5 :: real) \<le> 0.19739555984988075838" .
qed

lemma arctan_239_bounds:
  "0.00418407600207472386 \<le> arctan (1 / 239 :: real)"
  "arctan (1 / 239 :: real) \<le> 0.00418407600207472387"
proof -
  have "(0.00418407600207472386 :: real)
      \<le> (\<Sum>i<2 * 2. (- 1) ^ i * (1 / real (i * 2 + 1) * (1 / 239) ^ (i * 2 + 1)))"
    by (simp add: sum_upto_5 power_divide)
  also have "\<dots> \<le> arctan (1 / 239)"
    by (rule arctan_partial) simp_all
  finally show "0.00418407600207472386 \<le> arctan (1 / 239 :: real)" .
  have "arctan (1 / 239 :: real)
      \<le> (\<Sum>i<2 * 2 + 1. (- 1) ^ i * (1 / real (i * 2 + 1) * (1 / 239) ^ (i * 2 + 1)))"
    by (rule arctan_partial) simp_all
  also have "\<dots> \<le> 0.00418407600207472387"
    by (simp add: sum_upto_5 power_divide)
  finally show "arctan (1 / 239 :: real) \<le> 0.00418407600207472387" .
qed

lemma pi_bounds: "3.141592653589793236 < pi" "pi < 3.141592653589793239"
proof -
  have e: "pi = 16 * arctan (1 / 5) - 4 * arctan (1 / 239)"
    using machin by simp
  show "3.141592653589793236 < pi"
    unfolding e using arctan_5_bounds(1) arctan_239_bounds(2) by (simp?; linarith)
  show "pi < 3.141592653589793239"
    unfolding e using arctan_5_bounds(2) arctan_239_bounds(1) by (simp?; linarith)
qed

lemma Math_PI_below: "Math_PI + 1.2 / 10 ^ 16 < pi" "pi < Math_PI + 1.24 / 10 ^ 16"
  using pi_bounds by (simp_all add: Math_PI_def)

text \<open>Bounds from the series of sine and cosine.\<close>

lemma sum_upto_9:
  fixes f :: "nat \<Rightarrow> real"
  shows "(\<Sum>m<8. f m) = f 0 + f 1 + f 2 + f 3 + f 4 + f 5 + f 6 + f 7"
    and "(\<Sum>m<9. f m) = f 0 + f 1 + f 2 + f 3 + f 4 + f 5 + f 6 + f 7 + f 8"
  by (simp_all add: eval_nat_numeral lessThan_Suc)

lemma sum_upto_15:
  fixes f :: "nat \<Rightarrow> real"
  shows "(\<Sum>m<14. f m)
      = f 0 + f 1 + f 2 + f 3 + f 4 + f 5 + f 6 + f 7 + f 8 + f 9 + f 10 + f 11 + f 12 + f 13"
    and "(\<Sum>m<15. f m)
      = f 0 + f 1 + f 2 + f 3 + f 4 + f 5 + f 6 + f 7 + f 8 + f 9 + f 10 + f 11 + f 12 + f 13
        + f 14"
  by (simp_all add: eval_nat_numeral lessThan_Suc)

lemma cos_sum_bound:
  "\<bar>cos x - (\<Sum>m<n. cos_coeff m * x ^ m)\<bar> \<le> inverse (fact n) * \<bar>x\<bar> ^ n" for x :: real
proof -
  obtain t where
    e: "cos x = (\<Sum>m<n. cos_coeff m * x ^ m) + cos (t + 1 / 2 * real n * pi) / fact n * x ^ n"
    using Maclaurin_cos_expansion [of x n] by blast
  have "\<bar>cos (t + 1 / 2 * real n * pi) / fact n * x ^ n\<bar>
      = \<bar>cos (t + 1 / 2 * real n * pi)\<bar> * (inverse (fact n) * \<bar>x\<bar> ^ n)"
    by (simp add: abs_mult power_abs field_simps)
  also have "\<dots> \<le> 1 * (inverse (fact n) * \<bar>x\<bar> ^ n)"
    by (intro mult_right_mono abs_cos_le_one) simp
  finally show ?thesis
    unfolding e by simp
qed

lemma sin_taylor5: "\<bar>sin x - (x - x ^ 3 / 6)\<bar> \<le> \<bar>x\<bar> ^ 5 / 120" for x :: real
  using Maclaurin_sin_bound [of x 5]
  by (simp add: sum_upto_5 sin_coeff_def fact_numeral)

lemma cos_taylor2: "1 - x\<^sup>2 / 2 \<le> cos x" for x :: real
proof -
  obtain t where
    "cos x = (\<Sum>m<2. cos_coeff m * x ^ m) + cos (t + 1 / 2 * real 2 * pi) / fact 2 * x ^ 2"
    using Maclaurin_cos_expansion [of x 2] by blast
  then have e: "cos x = 1 - cos t * x\<^sup>2 / 2"
    by (simp add: sum_upto_5 cos_coeff_def fact_numeral)
  have "cos t * x\<^sup>2 \<le> 1 * x\<^sup>2"
    by (intro mult_right_mono) simp_all
  then show ?thesis unfolding e by simp
qed

lemma cos_taylor4: "cos x \<le> 1 - x\<^sup>2 / 2 + x ^ 4 / 24" for x :: real
proof -
  obtain t where
    "cos x = (\<Sum>m<4. cos_coeff m * x ^ m) + cos (t + 1 / 2 * real 4 * pi) / fact 4 * x ^ 4"
    using Maclaurin_cos_expansion [of x 4] by blast
  then have e: "cos x = 1 - x\<^sup>2 / 2 + cos t * x ^ 4 / 24"
    by (simp add: sum_upto_5 cos_coeff_def fact_numeral)
  have "cos t * x ^ 4 \<le> 1 * x ^ 4"
    by (intro mult_right_mono) simp_all
  then show ?thesis unfolding e by simp
qed

lemma sin_series_9:
  "\<bar>sin x - (x - x ^ 3 / 6 + x ^ 5 / 120 - x ^ 7 / 5040)\<bar> \<le> \<bar>x\<bar> ^ 9 / 362880" for x :: real
  using Maclaurin_sin_bound [of x 9]
  by (simp add: sum_upto_9 sin_coeff_def fact_numeral)

lemma cos_series_8:
  "\<bar>cos x - (1 - x\<^sup>2 / 2 + x ^ 4 / 24 - x ^ 6 / 720)\<bar> \<le> \<bar>x\<bar> ^ 8 / 40320" for x :: real
  using cos_sum_bound [of x 8]
  by (simp add: sum_upto_9 cos_coeff_def fact_numeral)

lemma sin_series_15:
  "\<bar>sin x - (x - x ^ 3 / 6 + x ^ 5 / 120 - x ^ 7 / 5040 + x ^ 9 / 362880 - x ^ 11 / 39916800
       + x ^ 13 / 6227020800)\<bar> \<le> \<bar>x\<bar> ^ 15 / 1307674368000" for x :: real
  using Maclaurin_sin_bound [of x 15]
  by (simp add: sum_upto_15 sin_coeff_def fact_numeral)

lemma cos_series_14:
  "\<bar>cos x - (1 - x\<^sup>2 / 2 + x ^ 4 / 24 - x ^ 6 / 720 + x ^ 8 / 40320 - x ^ 10 / 3628800
       + x ^ 12 / 479001600)\<bar> \<le> \<bar>x\<bar> ^ 14 / 87178291200" for x :: real
  using cos_sum_bound [of x 14]
  by (simp add: sum_upto_15 cos_coeff_def fact_numeral)

lemma abs_interval:
  fixes s p e lo hi :: real
  assumes "\<bar>s - p\<bar> \<le> e" "lo \<le> p - e" "p + e \<le> hi"
  shows "lo \<le> s" "s \<le> hi"
  using assms by linarith+

lemma interval_product:
  fixes a b c d x y :: real
  assumes "a \<le> x" "x \<le> b" "c \<le> y" "y \<le> d" "0 \<le> a" "0 \<le> c"
  shows "a * c \<le> x * y" "x * y \<le> b * d"
  using assms by (auto intro!: mult_mono)

text \<open>The declination of January 1 is -0.402449: its sine and cosine.\<close>

lemma decl_new_year: "decl (gamma 1) = - 0.402449"
  by (simp add: gamma_def decl_def)

lemma eqTime_new_year: "eqTime (gamma 1) = - 2.90416896"
  by (simp add: gamma_def eqTime_def)

lemma sin_delta: "0.3916728 \<le> sin (0.402449 :: real)" "sin (0.402449 :: real) \<le> 0.3916729"
proof -
  let ?x = "0.402449 :: real"
  note h = sin_series_9 [of ?x]
  have a: "0.3916728 \<le> (?x - ?x ^ 3 / 6 + ?x ^ 5 / 120 - ?x ^ 7 / 5040) - \<bar>?x\<bar> ^ 9 / 362880"
    by (simp add: power_divide)
  have b: "(?x - ?x ^ 3 / 6 + ?x ^ 5 / 120 - ?x ^ 7 / 5040) + \<bar>?x\<bar> ^ 9 / 362880 \<le> 0.3916729"
    by (simp add: power_divide)
  show "0.3916728 \<le> sin ?x" by (rule abs_interval(1) [OF h a b])
  show "sin ?x \<le> 0.3916729" by (rule abs_interval(2) [OF h a b])
qed

lemma cos_delta: "0.9201045 \<le> cos (0.402449 :: real)" "cos (0.402449 :: real) \<le> 0.9201046"
proof -
  let ?x = "0.402449 :: real"
  note h = cos_series_8 [of ?x]
  have a: "0.9201045 \<le> (1 - ?x\<^sup>2 / 2 + ?x ^ 4 / 24 - ?x ^ 6 / 720) - \<bar>?x\<bar> ^ 8 / 40320"
    by (simp add: power_divide)
  have b: "(1 - ?x\<^sup>2 / 2 + ?x ^ 4 / 24 - ?x ^ 6 / 720) + \<bar>?x\<bar> ^ 8 / 40320 \<le> 0.9201046"
    by (simp add: power_divide)
  show "0.9201045 \<le> cos ?x" by (rule abs_interval(1) [OF h a b])
  show "cos ?x \<le> 0.9201046" by (rule abs_interval(2) [OF h a b])
qed

text \<open>The cosine of 90.833 degrees.\<close>

lemma refraction_cos:
  "- 0.0145381 \<le> cos (90.833 * rad)" "cos (90.833 * rad) \<le> - 0.0145380"
proof -
  define th where "th = 90.833 * rad - pi / 2"
  have e: "90.833 * rad = th + pi / 2"
    by (simp add: th_def)
  have c: "cos (90.833 * rad) = - sin th"
    unfolding e by (simp add: cos_add)
  have lo: "0.0145385926 \<le> th"
    unfolding th_def rad_def using Math_PI_below(2) by (simp add: Math_PI_def)
  have hi: "th \<le> 0.0145385927"
    unfolding th_def rad_def using Math_PI_below(1) by (simp add: Math_PI_def)
  have p: "2 \<le> pi" by (rule pi_ge_two)
  have "sin 0.0145385926 \<le> sin th"
    using lo hi p by (intro sin_monotone_2pi_le) simp_all
  moreover have "(0.0145380 :: real) \<le> sin 0.0145385926"
  proof -
    let ?x = "0.0145385926 :: real"
    note h = sin_taylor5 [of ?x]
    have a: "0.0145380 \<le> (?x - ?x ^ 3 / 6) - \<bar>?x\<bar> ^ 5 / 120"
      by (simp add: power_divide)
    have b: "(?x - ?x ^ 3 / 6) + \<bar>?x\<bar> ^ 5 / 120 \<le> 1"
      by (simp add: power_divide)
    show ?thesis by (rule abs_interval(1) [OF h a b])
  qed
  ultimately show "cos (90.833 * rad) \<le> - 0.0145380"
    unfolding c by simp
  have "sin th \<le> sin 0.0145385927"
    using lo hi p by (intro sin_monotone_2pi_le) simp_all
  moreover have "sin 0.0145385927 \<le> (0.0145381 :: real)"
  proof -
    let ?x = "0.0145385927 :: real"
    note h = sin_taylor5 [of ?x]
    have a: "0 \<le> (?x - ?x ^ 3 / 6) - \<bar>?x\<bar> ^ 5 / 120"
      by (simp add: power_divide)
    have b: "(?x - ?x ^ 3 / 6) + \<bar>?x\<bar> ^ 5 / 120 \<le> 0.0145381"
      by (simp add: power_divide)
    show ?thesis by (rule abs_interval(2) [OF h a b])
  qed
  ultimately show "- 0.0145381 \<le> cos (90.833 * rad)"
    unfolding c by simp
qed

section \<open>The hour angle\<close>


















section \<open>Order of the three dates\<close>

text \<open>Sunrise, solar noon and sunset, as dates, are in this order in two cases.\<close>

text \<open>
  First, when sunrise, in minutes from local midnight, is not negative, and the host is
  regular, with one offset, at the input date and at the three local times of the result.
\<close>

lemma sun_dates_ordered_regular:
  assumes g: "getSunTimes z date lat lng tzString = Some r"
    and nn: "0 \<le> sunrise r"
    and rd: "regular_at z c date"
    and r1: "regular_at z c (Day (date + c) * msPerDay - c + \<lfloor>sunrise r\<rfloor> * msPerMinute)"
    and r2: "regular_at z c (Day (date + c) * msPerDay - c + \<lfloor>solarNoon r\<rfloor> * msPerMinute)"
    and r3: "regular_at z c (Day (date + c) * msPerDay - c + \<lfloor>sunset r\<rfloor> * msPerMinute)"
  shows "\<exists>s. getSunTimesAsDate z date lat lng tzString = Some s
       \<and> sunriseD s \<le> noonD s \<and> noonD s \<le> sunsetD s"
proof -
  note o = sun_minutes_ordered [OF g]
  have n2: "0 \<le> solarNoon r" and n3: "0 \<le> sunset r"
    using o nn by linarith+
  have u: "tza_utc z date = c"
    using rd by (simp add: regular_at_def)
  have l: "tza_local z (Day (date + c) * msPerDay + \<lfloor>sunrise r\<rfloor> * msPerMinute) = c"
    "tza_local z (Day (date + c) * msPerDay + \<lfloor>solarNoon r\<rfloor> * msPerMinute) = c"
    "tza_local z (Day (date + c) * msPerDay + \<lfloor>sunset r\<rfloor> * msPerMinute) = c"
    using r1 r2 r3 by (simp_all add: regular_at_def algebra_simps)
  note m1 = minutesToDate_nonneg [OF nn u l(1)]
  note m2 = minutesToDate_nonneg [OF n2 u l(2)]
  note m3 = minutesToDate_nonneg [OF n3 u l(3)]
  have f: "\<lfloor>sunrise r\<rfloor> \<le> \<lfloor>solarNoon r\<rfloor>" "\<lfloor>solarNoon r\<rfloor> \<le> \<lfloor>sunset r\<rfloor>"
    using o by (simp_all add: floor_mono)
  show ?thesis
    unfolding getSunTimesAsDate_Some [OF g] m1 m2 m3
    using f by (simp add: msPerMinute_def)
qed

text \<open>
  Second, on a host with one offset, when neither sunrise nor solar noon is a negative
  whole number of hours: the dates of negative minutes are all sixty minutes early, and
  still in order.
\<close>

lemma minutes_order_fixed:
  fixes a b :: real
  assumes "a \<le> b" and "0 \<le> a \<or> a / 60 \<noteq> of_int \<lfloor>a / 60\<rfloor>"
  shows "minutesToDate (fixed_zone c) t a \<le> minutesToDate (fixed_zone c) t b"
proof -
  have f: "\<lfloor>a\<rfloor> \<le> \<lfloor>b\<rfloor>"
    using assms(1) by (rule floor_mono)
  have "(if a < 0 \<and> a / 60 \<noteq> of_int \<lfloor>a / 60\<rfloor> then \<lfloor>a\<rfloor> - 60 else \<lfloor>a\<rfloor>)
      \<le> (if b < 0 \<and> b / 60 \<noteq> of_int \<lfloor>b / 60\<rfloor> then \<lfloor>b\<rfloor> - 60 else \<lfloor>b\<rfloor>)"
  proof (cases "0 \<le> a")
    case True
    then have "0 \<le> b" using assms(1) by simp
    then show ?thesis using True f by simp
  next
    case False
    then have "a < 0 \<and> a / 60 \<noteq> of_int \<lfloor>a / 60\<rfloor>"
      using assms(2) by simp
    then show ?thesis using f by simp
  qed
  then show ?thesis
    unfolding minutesToDate_fixed by (simp add: msPerMinute_def)
qed

lemma sun_dates_ordered_fixed:
  assumes g: "getSunTimes (fixed_zone c) date lat lng tzString = Some r"
    and a: "0 \<le> sunrise r \<or> sunrise r / 60 \<noteq> of_int \<lfloor>sunrise r / 60\<rfloor>"
    and b: "0 \<le> solarNoon r \<or> solarNoon r / 60 \<noteq> of_int \<lfloor>solarNoon r / 60\<rfloor>"
  shows "\<exists>s. getSunTimesAsDate (fixed_zone c) date lat lng tzString = Some s
       \<and> sunriseD s \<le> noonD s \<and> noonD s \<le> sunsetD s"
proof -
  note o = sun_minutes_ordered [OF g]
  have "minutesToDate (fixed_zone c) date (sunrise r)
      \<le> minutesToDate (fixed_zone c) date (solarNoon r)"
    using o a by (intro minutes_order_fixed) simp_all
  moreover have "minutesToDate (fixed_zone c) date (solarNoon r)
      \<le> minutesToDate (fixed_zone c) date (sunset r)"
    using o b by (intro minutes_order_fixed) simp_all
  ultimately show ?thesis
    unfolding getSunTimesAsDate_Some [OF g] by simp
qed

text \<open>
  Latitude 67.5 on January 1: the sun is up for about an hour and a quarter, the hour
  angle is between 37 and 38 minutes.
\<close>

lemma sin_lat: "0.9238795 \<le> sin (67.5 * rad)" "sin (67.5 * rad) \<le> 0.9238796"
proof -
  let ?x = "67.5 * rad"
  note h = sin_series_15 [of ?x]
  have a: "0.9238795 \<le> (?x - ?x ^ 3 / 6 + ?x ^ 5 / 120 - ?x ^ 7 / 5040 + ?x ^ 9 / 362880
       - ?x ^ 11 / 39916800 + ?x ^ 13 / 6227020800) - \<bar>?x\<bar> ^ 15 / 1307674368000"
    by (simp add: rad_def Math_PI_def power_divide)
  have b: "(?x - ?x ^ 3 / 6 + ?x ^ 5 / 120 - ?x ^ 7 / 5040 + ?x ^ 9 / 362880
       - ?x ^ 11 / 39916800 + ?x ^ 13 / 6227020800) + \<bar>?x\<bar> ^ 15 / 1307674368000 \<le> 0.9238796"
    by (simp add: rad_def Math_PI_def power_divide)
  show "0.9238795 \<le> sin ?x" by (rule abs_interval(1) [OF h a b])
  show "sin ?x \<le> 0.9238796" by (rule abs_interval(2) [OF h a b])
qed

lemma cos_lat: "0.3826834 \<le> cos (67.5 * rad)" "cos (67.5 * rad) \<le> 0.3826835"
proof -
  let ?x = "67.5 * rad"
  note h = cos_series_14 [of ?x]
  have a: "0.3826834 \<le> (1 - ?x\<^sup>2 / 2 + ?x ^ 4 / 24 - ?x ^ 6 / 720 + ?x ^ 8 / 40320
       - ?x ^ 10 / 3628800 + ?x ^ 12 / 479001600) - \<bar>?x\<bar> ^ 14 / 87178291200"
    by (simp add: rad_def Math_PI_def power_divide)
  have b: "(1 - ?x\<^sup>2 / 2 + ?x ^ 4 / 24 - ?x ^ 6 / 720 + ?x ^ 8 / 40320
       - ?x ^ 10 / 3628800 + ?x ^ 12 / 479001600) + \<bar>?x\<bar> ^ 14 / 87178291200 \<le> 0.3826835"
    by (simp add: rad_def Math_PI_def power_divide)
  show "0.3826834 \<le> cos ?x" by (rule abs_interval(1) [OF h a b])
  show "cos ?x \<le> 0.3826835" by (rule abs_interval(2) [OF h a b])
qed

text \<open>The cosine of the hour angle at latitude 67.5 on January 1.\<close>

lemma cosH_lat_quotient:
  "cosH 67.5 (- 0.402449)
   = (cos (90.833 * rad) + sin (67.5 * rad) * sin 0.402449) / (cos (67.5 * rad) * cos 0.402449)"
proof -
  have c0: "cos (0.402449 :: real) \<noteq> 0" "cos (67.5 * rad) \<noteq> 0"
    using cos_delta(1) cos_lat(1) by simp_all
  show ?thesis
    unfolding cosH_def tan_def using c0 by (simp add: field_simps)
qed

lemma cosH_lat: "0.9863 < cosH 67.5 (- 0.402449)" "cosH 67.5 (- 0.402449) < 0.9865"
proof -
  let ?n = "cos (90.833 * rad) + sin (67.5 * rad) * sin 0.402449"
  let ?d = "cos (67.5 * rad) * cos 0.402449"
  note s = interval_product [OF sin_lat sin_delta]
  note d = interval_product [OF cos_lat cos_delta]
  have n1: "0.3473203 \<le> ?n"
    using s(1) refraction_cos(1) by simp
  have n2: "?n \<le> 0.3473207"
    using s(2) refraction_cos(2) by simp
  have d1: "0.3521087 \<le> ?d"
    using d(1) by simp
  have d2: "?d \<le> 0.3521089"
    using d(2) by simp
  have p: "0 < ?d"
    using d1 by simp
  have "0.9863 * ?d \<le> 0.9863 * 0.3521089"
    using d2 by (intro mult_left_mono) simp_all
  also have "\<dots> < 0.3473203" by simp
  finally have a: "0.9863 * ?d < ?n"
    using n1 by simp
  have "?n < 0.9865 * 0.3521087"
    using n2 by simp
  also have "\<dots> \<le> 0.9865 * ?d"
    using d1 by (intro mult_left_mono) simp_all
  finally have b: "?n < 0.9865 * ?d" .
  show "0.9863 < cosH 67.5 (- 0.402449)"
    unfolding cosH_lat_quotient using a p by (simp add: pos_less_divide_eq)
  show "cosH 67.5 (- 0.402449) < 0.9865"
    unfolding cosH_lat_quotient using b p by (simp add: pos_divide_less_eq)
qed

lemma minute_cosines:
  "cos (38 * Math_PI / 720) < 0.9863" "0.9865 < cos (37 * Math_PI / 720)"
proof -
  have "cos (38 * Math_PI / 720) \<le> 1 - (38 * Math_PI / 720)\<^sup>2 / 2 + (38 * Math_PI / 720) ^ 4 / 24"
    by (rule cos_taylor4)
  also have "\<dots> < 0.9863"
    by (simp add: Math_PI_def power_divide)
  finally show "cos (38 * Math_PI / 720) < 0.9863" .
  have "(0.9865 :: real) < 1 - (37 * Math_PI / 720)\<^sup>2 / 2"
    by (simp add: Math_PI_def power_divide)
  also have "\<dots> \<le> cos (37 * Math_PI / 720)"
    by (rule cos_taylor2)
  finally show "0.9865 < cos (37 * Math_PI / 720)" .
qed

lemma hour_angle_lat:
  "limitCosH (cosH 67.5 (decl (gamma 1))) = cosH 67.5 (decl (gamma 1))"
  "37 < haMinutes (cosH 67.5 (decl (gamma 1)))"
  "haMinutes (cosH 67.5 (decl (gamma 1))) < 38"
proof -
  let ?c = "cosH 67.5 (decl (gamma 1))"
  have b: "0.9863 < ?c" "?c < 0.9865"
    unfolding decl_new_year by (rule cosH_lat)+
  show "limitCosH ?c = ?c"
    using b by (simp add: limitCosH_def Let_def)
  have c1: "- 1 \<le> ?c" "?c \<le> 1"
    using b by simp_all
  have m: "0 \<le> 37 * Math_PI / 720" "37 * Math_PI / 720 \<le> pi"
    "0 \<le> 38 * Math_PI / 720" "38 * Math_PI / 720 \<le> pi"
    using Math_PI_below(1) by (simp_all add: Math_PI_def)
  have lo: "cos (38 * Math_PI / 720) < ?c"
    using minute_cosines(1) b(1) by simp
  have hi: "?c < cos (37 * Math_PI / 720)"
    using minute_cosines(2) b(2) by simp
  have "arccos (cos (37 * Math_PI / 720)) < arccos ?c"
    using c1(1) hi by (rule arccos_less_arccos) simp
  then have p: "37 * Math_PI / 720 < arccos ?c"
    using m by (simp add: arccos_cos)
  have "- 1 \<le> cos (38 * Math_PI / 720)" by simp
  then have "arccos ?c < arccos (cos (38 * Math_PI / 720))"
    using lo c1(2) by (rule arccos_less_arccos)
  then have q: "arccos ?c < 38 * Math_PI / 720"
    using m by (simp add: arccos_cos)
  have e: "haMinutes ?c = arccos ?c * 720 / Math_PI"
    by (simp add: haMinutes_def Let_def)
  have "37 * Math_PI < arccos ?c * 720"
    using p by simp
  then show "37 < haMinutes ?c"
    unfolding e using Math_PI_pos by (simp add: pos_less_divide_eq)
  have "arccos ?c * 720 < 38 * Math_PI"
    using q by simp
  then show "haMinutes ?c < 38"
    unfolding e using Math_PI_pos by (simp add: pos_divide_less_eq)
qed

lemma tz_minus_1000: "tzOffsetMinutes ''-1000'' = Some (- 600)"
  by (simp add: tzOffsetMinutes_def parseDigits_def is_digit_def)

lemma dayOfYear_new_year_honolulu: "dayOfYear honolulu new_year_honolulu = 1"
proof -
  have y: "YearFromTime (LocalTime honolulu new_year_honolulu) = 2024"
    by (simp add: new_year_honolulu_def YearFromTime_def LocalTime_def honolulu_def
        fixed_zone_def Day_def msPerDay_def yearFrom.simps DayFromYear_def Let_def)
  show ?thesis
    unfolding dayOfYear_def getFullYear_def y
    by (simp add: new_year_honolulu_def newDate_year_0_0_def MakeDay_month0_def
      DayFromYear_def UTC_def MakeDate_def MakeTime_def msPerDay_def honolulu_def
      fixed_zone_def Let_def)
qed

text \<open>
  Claim C1. The three dates are not always in order. On a host in Honolulu's zone, for
  noon of 2024-01-01, latitude 67.5, longitude 45.72604224 and the zone's offset string
  \<open>-1000\<close>, solar noon is at minute -60 exactly, sunrise at about minute -97.8 and
  sunset at about minute -22.2. The date of solar noon is 23:00 of 2023-12-31, which is
  right; the dates of sunrise and sunset are 21:22 and 22:37, sixty minutes early. Sunset
  comes out 23 minutes before solar noon.
\<close>

theorem sun_dates_out_of_order:
  "\<exists>s. getSunTimesAsDate honolulu new_year_honolulu 67.5 45.72604224 ''-1000'' = Some s
     \<and> sunriseD s = 1704093720000
     \<and> noonD s = 1704099600000
     \<and> sunsetD s = 1704098220000
     \<and> sunsetD s < noonD s"
proof -
  let ?hm = "haMinutes (cosH 67.5 (decl (gamma 1)))"
  note h = hour_angle_lat(2,3)
  let ?r = "\<lparr>sunrise = - 60 - ?hm, solarNoon = - 60, sunset = - 60 + ?hm\<rparr>"
  have g: "getSunTimes honolulu new_year_honolulu 67.5 45.72604224 ''-1000'' = Some ?r"
    unfolding getSunTimes_Some [OF tz_minus_1000] dayOfYear_new_year_honolulu eqTime_new_year
      hour_angle_lat(1)
    by simp
  have base: "Day (new_year_honolulu + - 36000000) * msPerDay - - 36000000 = 1704103200000"
    by (simp add: new_year_honolulu_def Day_def msPerDay_def)
  have n: "minutesToDate honolulu new_year_honolulu (- 60) = 1704099600000"
    unfolding honolulu_def minutesToDate_fixed base by (simp add: msPerMinute_def)
  have f1: "\<lfloor>- 60 + ?hm\<rfloor> = - 23"
    using h by (simp add: floor_eq_iff)
  have f2: "\<lfloor>(- 60 + ?hm) / 60\<rfloor> = - 1"
    using h by (simp add: floor_eq_iff)
  have ss: "minutesToDate honolulu new_year_honolulu (- 60 + ?hm) = 1704098220000"
    unfolding honolulu_def minutesToDate_fixed base f1 f2 using h by (simp add: msPerMinute_def)
  have f3: "\<lfloor>- 60 - ?hm\<rfloor> = - 98"
    using h by (simp add: floor_eq_iff)
  have f4: "\<lfloor>(- 60 - ?hm) / 60\<rfloor> = - 2"
    using h by (simp add: floor_eq_iff)
  have sr: "minutesToDate honolulu new_year_honolulu (- 60 - ?hm) = 1704093720000"
    unfolding honolulu_def minutesToDate_fixed base f3 f4 using h by (simp add: msPerMinute_def)
  show ?thesis
    unfolding getSunTimesAsDate_Some [OF g] using n ss sr by simp
qed

section \<open>Running the two functions again\<close>

lemma shiftMinutes_h_eq:
  assumes "x < length h"
  shows "shiftMinutes_h z h x k = (h @ [shiftMinutes z (h ! x) k], length h)"
  using assms
  by (simp add: shiftMinutes_h_def newDate_h_def setMinutes_h_def shiftMinutes_def Let_def)

lemma minutesToDate_h_eq:
  assumes "b < length h"
  shows "minutesToDate_h z h b m = (h @ [minutesToDate z (h ! b) m], length h)"
  using assms
  by (simp add: minutesToDate_h_def newDate_h_def setHours_h_def minutesToDate_def Let_def)

lemma dayOfYear_h_eq:
  assumes "d < length h"
  shows "dayOfYear_h z h d
         = (h @ [newDate_year_0_0 z (getFullYear z (h ! d))], dayOfYear z (h ! d))"
  using assms
  by (simp add: dayOfYear_h_def newDate_h_def dayOfYear_def Let_def nth_append)

lemma getSunTimes_h_eq:
  assumes "d < length h"
  shows "getSunTimes_h z h d lat lng tzString
         = (h @ [newDate_year_0_0 z (getFullYear z (h ! d))],
            getSunTimes z (h ! d) lat lng tzString)"
  by (simp add: getSunTimes_h_def dayOfYear_h_eq [OF assms] getSunTimes_def Let_def)

lemma getSunTimesAsDate_h_None:
  assumes "d < length h" "tzOffsetMinutes tzString = None"
  shows "getSunTimesAsDate_h z h d lat lng tzString
         = (h @ [newDate_year_0_0 z (getFullYear z (h ! d))], None)"
  using assms(2) getSunTimes_None [of z "h ! d" lat lng tzString]
  by (simp add: getSunTimesAsDate_h_def getSunTimes_h_eq [OF assms(1)])

lemma getSunTimesAsDate_h_Some:
  assumes d: "d < length h" and g: "getSunTimes z (h ! d) lat lng tzString = Some r"
  shows "getSunTimesAsDate_h z h d lat lng tzString
         = (h @ [newDate_year_0_0 z (getFullYear z (h ! d)),
                 minutesToDate z (h ! d) (sunrise r),
                 minutesToDate z (h ! d) (solarNoon r),
                 minutesToDate z (h ! d) (sunset r)],
            Some \<lparr>sunriseR = length h + 1, noonR = length h + 2, sunsetR = length h + 3\<rparr>)"
  unfolding getSunTimesAsDate_h_def getSunTimes_h_eq [OF d] g
  using d by (simp add: minutesToDate_h_eq nth_append)

text \<open>
  In the store \<open>calculateVedicTimes\<close> appends eight dates, changes no cell that was
  there, and its result stands for the periods of the first model.
\<close>

lemma calculateVedicTimes_h_eq:
  assumes "sunriseR s < length h" "noonR s < length h" "sunsetR s < length h"
    and "calculateVedicTimes_h z fmt cfg h s = (h', v)"
  shows "vedicTimesOf h' v
           = calculateVedicTimes z fmt cfg
               \<lparr>sunriseD = h ! sunriseR s, noonD = h ! noonR s, sunsetD = h ! sunsetR s\<rparr>"
    and "take (length h) h' = h"
    and "length h' = length h + 8"
  using assms
  by (auto simp add: calculateVedicTimes_h_def shiftMinutes_h_eq nth_append
      vedicTimesOf_def periodOf_def calculateVedicTimes_def Let_def)

lemma calculateVedicTimes_h_refs:
  assumes "sunriseR s < length h" "noonR s < length h" "sunsetR s < length h"
    and "calculateVedicTimes_h z fmt cfg h s = (h', v)"
  shows "refs_below (length h') v"
  using assms
  by (auto simp add: calculateVedicTimes_h_def shiftMinutes_h_eq nth_append refs_below_def
      Let_def)

lemma nth_of_take:
  assumes "take n xs = ys" "i < length ys"
  shows "xs ! i = ys ! i"
proof -
  have "i < n" using assms by auto
  then have "take n xs ! i = xs ! i" by simp
  then show ?thesis using assms(1) by simp
qed

lemma vedicTimesOf_stable:
  assumes "refs_below (length h) v" "take (length h) h' = h"
  shows "vedicTimesOf h' v = vedicTimesOf h v"
  using assms nth_of_take [OF assms(2)]
  by (simp add: vedicTimesOf_def periodOf_def refs_below_def)

lemma vedicTimesFor_h_eq:
  assumes d: "date < length h"
    and run: "vedicTimesFor_h z fmt cfg h date lat lng tzString = (h', out)"
  shows "map_option (vedicTimesOf h') out = vedicTimesFor z fmt cfg (h ! date) lat lng tzString"
    and "take (length h) h' = h"
    and "\<And>v. out = Some v \<Longrightarrow> refs_below (length h') v"
proof -
  let ?soy = "newDate_year_0_0 z (getFullYear z (h ! date))"
  have "map_option (vedicTimesOf h') out = vedicTimesFor z fmt cfg (h ! date) lat lng tzString
        \<and> take (length h) h' = h \<and> (\<forall>v. out = Some v \<longrightarrow> refs_below (length h') v)"
  proof (cases "getSunTimes z (h ! date) lat lng tzString")
    case None
    then have tz: "tzOffsetMinutes tzString = None"
      by (simp add: getSunTimes_None)
    have "h' = h @ [?soy]" "out = None"
      using run by (simp_all add: vedicTimesFor_h_def getSunTimesAsDate_h_None [OF d tz])
    then show ?thesis
      using None by (simp add: vedicTimesFor_def getSunTimesAsDate_def)
  next
    case (Some r)
    let ?H = "h @ [?soy, minutesToDate z (h ! date) (sunrise r),
                 minutesToDate z (h ! date) (solarNoon r),
                 minutesToDate z (h ! date) (sunset r)]"
    let ?s = "\<lparr>sunriseR = length h + 1, noonR = length h + 2, sunsetR = length h + 3\<rparr>"
    obtain hh v where c: "calculateVedicTimes_h z fmt cfg ?H ?s = (hh, v)"
      by (cases "calculateVedicTimes_h z fmt cfg ?H ?s") blast
    have o: "h' = hh" "out = Some v"
      using run c by (simp_all add: vedicTimesFor_h_def getSunTimesAsDate_h_Some [OF d Some])
    have b: "sunriseR ?s < length ?H" "noonR ?s < length ?H" "sunsetR ?s < length ?H"
      by simp_all
    note e = calculateVedicTimes_h_eq [OF b c]
    note f = calculateVedicTimes_h_refs [OF b c]
    have 1: "vedicTimesOf hh v
             = calculateVedicTimes z fmt cfg
                \<lparr>sunriseD = minutesToDate z (h ! date) (sunrise r),
                 noonD = minutesToDate z (h ! date) (solarNoon r),
                 sunsetD = minutesToDate z (h ! date) (sunset r)\<rparr>"
      unfolding e(1) by (simp add: nth_append)
    have "take (length h) (take (length ?H) hh) = take (length h) ?H"
      unfolding e(2) by (rule refl)
    then have 2: "take (length h) hh = h"
      by (simp add: min_def)
    show ?thesis
      using 1 2 f
      by (simp add: o vedicTimesFor_def getSunTimesAsDate_Some [OF Some])
  qed
  then show "map_option (vedicTimesOf h') out = vedicTimesFor z fmt cfg (h ! date) lat lng tzString"
    and "take (length h) h' = h"
    and "\<And>v. out = Some v \<Longrightarrow> refs_below (length h') v"
    by blast+
qed

lemma two_runs:
  assumes d: "date < length h"
    and r1: "vedicTimesFor_h z fmt cfg h date lat lng tzString = (h1, out1)"
    and r2: "vedicTimesFor_h z fmt cfg h1 date lat lng tzString = (h2, out2)"
  shows "map_option (vedicTimesOf h2) out2 = map_option (vedicTimesOf h1) out1
       \<and> map_option (vedicTimesOf h2) out1 = map_option (vedicTimesOf h1) out1
       \<and> take (length h) h1 = h
       \<and> take (length h1) h2 = h1
       \<and> map_option (vedicTimesOf h1) out1
           = vedicTimesFor z fmt cfg (h ! date) lat lng tzString"
proof -
  note a = vedicTimesFor_h_eq [OF d r1]
  have d1: "date < length h1"
    using d a(2) by (metis length_take min_less_iff_conj)
  have n: "h1 ! date = h ! date"
    using nth_of_take [OF a(2) d] .
  note b = vedicTimesFor_h_eq [OF d1 r2]
  have s: "map_option (vedicTimesOf h2) out1 = map_option (vedicTimesOf h1) out1"
  proof (cases out1)
    case None
    then show ?thesis by simp
  next
    case (Some v)
    then show ?thesis
      using vedicTimesOf_stable [OF a(3) b(2)] by simp
  qed
  show ?thesis
    using a(1) a(2) b(1) b(2) s n by simp
qed

text \<open>
  Claim C8. From any store, with the date allocated in it, run the two functions and
  then, in the store the first run leaves, run them again with the same arguments. The
  second result stands for the same periods as the first; the first result still stands
  for them after the second run; neither run changes a cell that existed before it,
  the input date among them; and the periods are those of the first model, a function of
  the date's time value, the latitude, the longitude, the offset string, the constants,
  the host's zone and the formatter, and of nothing else in the store.
\<close>

theorem pipeline_repeatable:
  assumes "date < length h"
  shows "(let (h1, out1) = vedicTimesFor_h z fmt cfg h date lat lng tzString;
              (h2, out2) = vedicTimesFor_h z fmt cfg h1 date lat lng tzString
          in map_option (vedicTimesOf h2) out2 = map_option (vedicTimesOf h1) out1
             \<and> map_option (vedicTimesOf h2) out1 = map_option (vedicTimesOf h1) out1
             \<and> take (length h) h1 = h
             \<and> take (length h1) h2 = h1
             \<and> map_option (vedicTimesOf h1) out1
                 = vedicTimesFor z fmt cfg (h ! date) lat lng tzString)"
proof -
  obtain h1 out1 where r1: "vedicTimesFor_h z fmt cfg h date lat lng tzString = (h1, out1)"
    by (cases "vedicTimesFor_h z fmt cfg h date lat lng tzString") blast
  obtain h2 out2 where r2: "vedicTimesFor_h z fmt cfg h1 date lat lng tzString = (h2, out2)"
    by (cases "vedicTimesFor_h z fmt cfg h1 date lat lng tzString") blast
  from two_runs [OF assms r1 r2] show ?thesis
    by (simp add: r1 r2)
qed

text \<open>
  The theorem for a store that holds one date, midnight of 2024-06-21, with Tallinn's
  coordinates and the script's constants.
\<close>

theorem pipeline_repeatable_witness:
  "(0 :: nat) < length [solstice_night]
   \<and> (let (h1, out1) = vedicTimesFor_h tallinn2024 (formatHHmm tallinn2024) script_config
                          [solstice_night] 0 59.4369 24.7536 ''+0300'';
          (h2, out2) = vedicTimesFor_h tallinn2024 (formatHHmm tallinn2024) script_config
                          h1 0 59.4369 24.7536 ''+0300''
      in map_option (vedicTimesOf h2) out2 = map_option (vedicTimesOf h1) out1
         \<and> take (length [solstice_night]) h1 = [solstice_night])"
proof -
  have l: "(0 :: nat) < length [solstice_night]"
    by simp
  from pipeline_repeatable [OF l, of tallinn2024 "formatHHmm tallinn2024" script_config
      "59.4369" "24.7536" "''+0300''"] l
  show ?thesis
    by (simp add: Let_def split: prod.splits)
qed

end
